theory Spec2Isabelle
  imports Main "HOL-Library.Monad_Syntax"
begin

section \<open>Python values\<close>

text \<open>
  The program \<^verbatim>\<open>vless2json.py\<close> turns a \<^verbatim>\<open>vless://\<close> link into a
  configuration document. Its data are Python values: \<^verbatim>\<open>None\<close>, booleans,
  integers, strings, lists and dictionaries. A dictionary keeps its insertion order, which
  is the order in which \<^verbatim>\<open>json.dump\<close> writes it, so it is an association list;
  its keys are strings throughout the program. An instance of the class
  \<^verbatim>\<open>DotAccessibleDict\<close> is a dictionary that carries the flag
  \<^verbatim>\<open>__is_missing\<close>.

  Text is a list of 8-bit characters, read as the code points 0 to 255.
\<close>

datatype pyval =
    PNone
  | PBool bool
  | PInt int
  | PStr string
  | PList "pyval list"
  | PDict "(string \<times> pyval) list"
  | DotAccessibleDict bool "(string \<times> pyval) list"

type_synonym items = "(string \<times> pyval) list"

section \<open>The class DotAccessibleDict\<close>

text \<open>
  \<^verbatim>\<open>__init__(self, missing, *args)\<close>: the items of the dictionary passed are
  copied, and every value that is a dictionary (\<^verbatim>\<open>isinstance(value, dict)\<close>, which
  holds for a \<^verbatim>\<open>DotAccessibleDict\<close> too) is replaced by
  \<^verbatim>\<open>DotAccessibleDict(False, value)\<close>. Values inside lists are left as they are.
\<close>

fun init_value :: "pyval \<Rightarrow> pyval"
and init_items :: "items \<Rightarrow> items" where
  "init_value (PDict kvs) = DotAccessibleDict False (init_items kvs)"
| "init_value (DotAccessibleDict m kvs) = DotAccessibleDict False (init_items kvs)"
| "init_value PNone = PNone"
| "init_value (PBool b) = PBool b"
| "init_value (PInt n) = PInt n"
| "init_value (PStr s) = PStr s"
| "init_value (PList xs) = PList xs"
| "init_items [] = []"
| "init_items ((k, v) # kvs) = (k, init_value v) # init_items kvs"

definition DotAccessibleDict_new :: "bool \<Rightarrow> items \<Rightarrow> pyval" where
  "DotAccessibleDict_new missing kvs = DotAccessibleDict missing (init_items kvs)"

text \<open>\<^verbatim>\<open>DotAccessibleDict(missing=True)\<close>, the absent marker: no items, flag set.\<close>

definition absent :: pyval where
  "absent = DotAccessibleDict_new True []"

text \<open>
  Truth value of a Python value. For a \<^verbatim>\<open>DotAccessibleDict\<close> it is
  \<^verbatim>\<open>__bool__\<close>, \<^verbatim>\<open>not self.__is_missing\<close>, whatever its items.
\<close>

fun truthy :: "pyval \<Rightarrow> bool" where
  "truthy PNone = False"
| "truthy (PBool b) = b"
| "truthy (PInt n) = (n \<noteq> 0)"
| "truthy (PStr s) = (s \<noteq> [])"
| "truthy (PList xs) = (xs \<noteq> [])"
| "truthy (PDict kvs) = (kvs \<noteq> [])"
| "truthy (DotAccessibleDict missing kvs) = (\<not> missing)"

text \<open>\<^verbatim>\<open>x or y\<close>\<close>

definition py_or :: "pyval \<Rightarrow> pyval \<Rightarrow> pyval" where
  "py_or x y = (if truthy x then x else y)"

text \<open>
  \<^verbatim>\<open>__getattr__(self, key)\<close> on an instance with flag \<open>missing\<close> and items
  \<open>kvs\<close>. \<^verbatim>\<open>self[key]\<close> raises \<^verbatim>\<open>KeyError\<close> when the key is not there.
\<close>

definition getattr_hook :: "bool \<Rightarrow> items \<Rightarrow> string option \<Rightarrow> pyval" where
  "getattr_hook missing kvs key =
     (if key = None \<or> missing then absent
      else (case map_of kvs (the key) of
              Some v \<Rightarrow> py_or v absent
            | None \<Rightarrow> absent))"

text \<open>
  Python calls \<^verbatim>\<open>__getattr__\<close> only when the ordinary lookup finds nothing under
  the name. The ordinary lookup finds the four methods the class defines, the instance
  attribute that holds the flag (its name is mangled), and what \<^verbatim>\<open>dict\<close> and
  \<^verbatim>\<open>object\<close> define (the names below are those of CPython 3.12).
\<close>

definition class_attributes :: "string list" where
  "class_attributes =
     [''__init__'', ''__bool__'', ''__getattr__'', ''get_path'',
      ''_DotAccessibleDict__is_missing'',
      ''clear'', ''copy'', ''fromkeys'', ''get'', ''items'', ''keys'', ''pop'', ''popitem'',
      ''setdefault'', ''update'', ''values'',
      ''__class__'', ''__class_getitem__'', ''__contains__'', ''__delattr__'',
      ''__delitem__'', ''__dict__'', ''__dir__'', ''__doc__'', ''__eq__'', ''__format__'',
      ''__ge__'', ''__getattribute__'', ''__getitem__'', ''__getstate__'', ''__gt__'',
      ''__hash__'', ''__init_subclass__'', ''__ior__'', ''__iter__'', ''__le__'',
      ''__len__'', ''__lt__'', ''__module__'', ''__ne__'', ''__new__'', ''__or__'',
      ''__reduce__'', ''__reduce_ex__'', ''__repr__'', ''__reversed__'', ''__ror__'',
      ''__setattr__'', ''__setitem__'', ''__sizeof__'', ''__str__'', ''__subclasshook__'',
      ''__weakref__'']"

text \<open>
  The result of \<^verbatim>\<open>obj.name\<close> on an instance: either the attribute that the ordinary
  lookup finds (a bound method or an attribute of the object itself, not a field of the
  mapping), or the value that \<^verbatim>\<open>__getattr__\<close> returns.
\<close>

datatype access = Builtin string | Field pyval

definition attribute :: "bool \<Rightarrow> items \<Rightarrow> string \<Rightarrow> access" where
  "attribute missing kvs name =
     (if name \<in> set class_attributes then Builtin name
      else Field (getattr_hook missing kvs (Some name)))"

text \<open>
  \<^verbatim>\<open>v.name\<close> where a field is expected, as in \<^verbatim>\<open>build_config\<close>. \<open>None\<close>: the
  expression yields no field value, because \<open>v\<close> is not a \<^verbatim>\<open>DotAccessibleDict\<close>
  (for the names that \<^verbatim>\<open>build_config\<close> uses, a string, a number, a list or
  \<^verbatim>\<open>None\<close> raises \<^verbatim>\<open>AttributeError\<close>) or because the name is one of the
  class's own.
\<close>

fun attr :: "pyval \<Rightarrow> string \<Rightarrow> pyval option" where
  "attr (DotAccessibleDict missing kvs) name =
     (case attribute missing kvs name of Field v \<Rightarrow> Some v | Builtin _ \<Rightarrow> None)"
| "attr _ name = None"

section \<open>build_config\<close>

text \<open>
  The dictionary that \<^verbatim>\<open>build_config\<close> returns, with the twelve values it reads
  from \<open>params\<close> as arguments.
\<close>

definition config_document ::
  "pyval \<Rightarrow> pyval \<Rightarrow> pyval \<Rightarrow> pyval \<Rightarrow> pyval \<Rightarrow> pyval \<Rightarrow> pyval \<Rightarrow> pyval \<Rightarrow> pyval
     \<Rightarrow> pyval \<Rightarrow> pyval \<Rightarrow> pyval \<Rightarrow> pyval" where
  "config_document proxies_socks_port proxies_http_port server_host server_port uuid
     params_flow params_type params_security params_fp params_sni params_pbk params_sid =
     PDict [
     (''log'', PDict [
        (''access'', PStr ''none''),
        (''error'', PStr ''''),
        (''loglevel'', PStr ''warning''),
        (''dnsLog'', PBool False)]),
     (''stats'', PDict []),
     (''policy'', PDict [
        (''levels'', PDict [
           (''0'', PDict [
              (''statsUserUplink'', PBool True),
              (''statsUserDownlink'', PBool True)])]),
        (''system'', PDict [
           (''statsOutboundUplink'', PBool True),
           (''statsOutboundDownlink'', PBool True)])]),
     (''api'', PDict [
        (''tag'', PStr ''api''),
        (''services'', PList [PStr ''StatsService''])]),
     (''inbounds'', PList [
        PDict [
          (''tag'', PStr ''socks''),
          (''port'', py_or proxies_socks_port (PInt 8107)),
          (''listen'', PStr ''127.0.0.1''),
          (''protocol'', PStr ''socks''),
          (''sniffing'', PDict [
             (''enabled'', PBool True),
             (''destOverride'', PList [PStr ''http'', PStr ''tls'']),
             (''routeOnly'', PBool True)]),
          (''settings'', PDict [
             (''auth'', PStr ''noauth''),
             (''udp'', PBool True)])],
        PDict [
          (''tag'', PStr ''http''),
          (''port'', py_or proxies_http_port (PInt 8108)),
          (''listen'', PStr ''127.0.0.1''),
          (''protocol'', PStr ''http''),
          (''sniffing'', PDict [
             (''enabled'', PBool True),
             (''destOverride'', PList [PStr ''http'', PStr ''tls'']),
             (''routeOnly'', PBool True)]),
          (''settings'', PDict [
             (''auth'', PStr ''noauth''),
             (''udp'', PBool True)])]]),
     (''outbounds'', PList [
        PDict [
          (''tag'', PStr ''proxy''),
          (''protocol'', PStr ''vless''),
          (''settings'', PDict [
             (''vnext'', PList [
                PDict [
                  (''address'', server_host),
                  (''port'', server_port),
                  (''users'', PList [
                     PDict [
                       (''id'', uuid),
                       (''encryption'', PStr ''none''),
                       (''flow'', py_or params_flow (PStr ''xtls-rprx-vision-udp443''))]])]])]),
          (''streamSettings'', PDict [
             (''network'', py_or params_type (PStr ''tcp'')),
             (''security'', py_or params_security (PStr ''reality'')),
             (''realitySettings'', PDict [
                (''fingerprint'', params_fp),
                (''serverName'', params_sni),
                (''show'', PBool False),
                (''publicKey'', params_pbk),
                (''shortId'', params_sid)])])],
        PDict [
          (''tag'', PStr ''direct''),
          (''protocol'', PStr ''freedom''),
          (''settings'', PDict [])],
        PDict [
          (''protocol'', PStr ''blackhole''),
          (''tag'', PStr ''block'')]]),
     (''routing'', PDict [
        (''domainStrategy'', PStr ''AsIs''),
        (''rules'', PList [
           PDict [
             (''type'', PStr ''field''),
             (''inboundTag'', PList [PStr ''api'']),
             (''outboundTag'', PStr ''api'')],
           PDict [
             (''type'', PStr ''field''),
             (''ip'', PList [PStr ''geoip:private'']),
             (''outboundTag'', PStr ''block'')],
           PDict [
             (''type'', PStr ''field''),
             (''protocol'', PList [PStr ''bittorrent'']),
             (''outboundTag'', PStr ''direct'')],
           PDict [
             (''type'', PStr ''field''),
             (''port'', PStr ''6969,6881-6889''),
             (''outboundTag'', PStr ''direct'')],
           PDict [
             (''type'', PStr ''field''),
             (''sourcePort'', PStr ''6881-6889''),
             (''outboundTag'', PStr ''direct'')],
           PDict [
             (''type'', PStr ''field''),
             (''domain'', PList [PStr ''ext:customgeo.dat:coherence-extra-exceptions'']),
             (''outboundTag'', PStr ''proxy'')],
           PDict [
             (''type'', PStr ''field''),
             (''domain'', PList [
                PStr ''geosite:cn'',
                PStr ''domain:cn'',
                PStr ''domain:xn--fiqs8s'',
                PStr ''domain:xn--fiqz9s'',
                PStr ''domain:xn--55qx5d'',
                PStr ''domain:xn--io0a7i'',
                PStr ''domain:ru'',
                PStr ''domain:xn--p1ai'',
                PStr ''domain:by'',
                PStr ''domain:xn--90ais'',
                PStr ''domain:ir'',
                PStr ''ext:customgeo.dat:coherence-extra'',
                PStr ''ext:customgeo.dat:coherence-extra-plus'']),
             (''outboundTag'', PStr ''direct'')],
           PDict [
             (''type'', PStr ''field''),
             (''ip'', PList [
                PStr ''geoip:cn'',
                PStr ''geoip:ru'',
                PStr ''geoip:by'',
                PStr ''geoip:ir'']),
             (''outboundTag'', PStr ''direct'')]])])]"

text \<open>
  \<^verbatim>\<open>build_config(raw_params)\<close>: the twelve values are read from
  \<^verbatim>\<open>params = DotAccessibleDict(False, raw_params)\<close>. Python evaluates them in the
  order of the display, and an exception in any of them leaves the function, which is the
  result \<open>None\<close>.
\<close>

definition build_config :: "items \<Rightarrow> pyval option" where
  "build_config raw_params = do {
     let params = DotAccessibleDict_new False raw_params;
     proxies_socks_port \<leftarrow> attr params ''proxies'' \<bind> (\<lambda>p. attr p ''socks_port'');
     proxies_http_port \<leftarrow> attr params ''proxies'' \<bind> (\<lambda>p. attr p ''http_port'');
     server_host \<leftarrow> attr params ''server'' \<bind> (\<lambda>s. attr s ''host'');
     server_port \<leftarrow> attr params ''server'' \<bind> (\<lambda>s. attr s ''port'');
     uuid \<leftarrow> attr params ''uuid'';
     params_flow \<leftarrow> attr params ''params'' \<bind> (\<lambda>p. attr p ''flow'');
     params_type \<leftarrow> attr params ''params'' \<bind> (\<lambda>p. attr p ''type'');
     params_security \<leftarrow> attr params ''params'' \<bind> (\<lambda>p. attr p ''security'');
     params_fp \<leftarrow> attr params ''params'' \<bind> (\<lambda>p. attr p ''fp'');
     params_sni \<leftarrow> attr params ''params'' \<bind> (\<lambda>p. attr p ''sni'');
     params_pbk \<leftarrow> attr params ''params'' \<bind> (\<lambda>p. attr p ''pbk'');
     params_sid \<leftarrow> attr params ''params'' \<bind> (\<lambda>p. attr p ''sid'');
     Some (config_document proxies_socks_port proxies_http_port server_host server_port uuid
             params_flow params_type params_security params_fp params_sni params_pbk params_sid)
   }"

section \<open>Strings\<close>

text \<open>
  \<^verbatim>\<open>str.lower()\<close>: among the code points below 256 it changes the letters A to Z and
  the capital letters of Latin-1, each to the code point 32 above.
\<close>

definition upper_chars :: string where
  "upper_chars = ''ABCDEFGHIJKLMNOPQRSTUVWXYZ'' @
     [CHR 0xC0, CHR 0xC1, CHR 0xC2, CHR 0xC3, CHR 0xC4, CHR 0xC5, CHR 0xC6, CHR 0xC7,
      CHR 0xC8, CHR 0xC9, CHR 0xCA, CHR 0xCB, CHR 0xCC, CHR 0xCD, CHR 0xCE, CHR 0xCF,
      CHR 0xD0, CHR 0xD1, CHR 0xD2, CHR 0xD3, CHR 0xD4, CHR 0xD5, CHR 0xD6,
      CHR 0xD8, CHR 0xD9, CHR 0xDA, CHR 0xDB, CHR 0xDC, CHR 0xDD, CHR 0xDE]"

definition lower_chars :: string where
  "lower_chars = ''abcdefghijklmnopqrstuvwxyz'' @
     [CHR 0xE0, CHR 0xE1, CHR 0xE2, CHR 0xE3, CHR 0xE4, CHR 0xE5, CHR 0xE6, CHR 0xE7,
      CHR 0xE8, CHR 0xE9, CHR 0xEA, CHR 0xEB, CHR 0xEC, CHR 0xED, CHR 0xEE, CHR 0xEF,
      CHR 0xF0, CHR 0xF1, CHR 0xF2, CHR 0xF3, CHR 0xF4, CHR 0xF5, CHR 0xF6,
      CHR 0xF8, CHR 0xF9, CHR 0xFA, CHR 0xFB, CHR 0xFC, CHR 0xFD, CHR 0xFE]"

definition lower_char :: "char \<Rightarrow> char" where
  "lower_char c = (case map_of (zip upper_chars lower_chars) c of Some l \<Rightarrow> l | None \<Rightarrow> c)"

definition lower :: "string \<Rightarrow> string" where
  "lower s = map lower_char s"

definition startswith :: "string \<Rightarrow> string \<Rightarrow> bool" where
  "startswith s p = (take (length p) s = p)"

text \<open>
  \<^verbatim>\<open>s.partition(sep)\<close> and \<^verbatim>\<open>s.rpartition(sep)\<close> for a separator of one
  character; the middle component says whether the separator was found.
\<close>

definition str_partition :: "char \<Rightarrow> string \<Rightarrow> string \<times> bool \<times> string" where
  "str_partition sep s =
     (let r = dropWhile (\<lambda>c. c \<noteq> sep) s
      in if r = [] then (s, False, []) else (takeWhile (\<lambda>c. c \<noteq> sep) s, True, tl r))"

definition str_rpartition :: "char \<Rightarrow> string \<Rightarrow> string \<times> bool \<times> string" where
  "str_rpartition sep s =
     (case str_partition sep (rev s) of
        (a, True, b) \<Rightarrow> (rev b, True, rev a)
      | (a, False, b) \<Rightarrow> ([], False, s))"

text \<open>\<^verbatim>\<open>s.split(sep)\<close>\<close>

fun str_split :: "char \<Rightarrow> string \<Rightarrow> string list" where
  "str_split sep [] = [[]]"
| "str_split sep (c # cs) =
     (if c = sep then [] # str_split sep cs
      else (case str_split sep cs of w # ws \<Rightarrow> (c # w) # ws | [] \<Rightarrow> [[c]]))"

text \<open>\<^verbatim>\<open>int(s)\<close> for a text of ASCII digits, and \<^verbatim>\<open>f"{n}"\<close> for an integer.\<close>

definition int_of_digits :: "string \<Rightarrow> int" where
  "int_of_digits s = foldl (\<lambda>n c. 10 * n + (int (of_char c) - 48)) 0 s"

fun digits_of :: "nat \<Rightarrow> string" where
  "digits_of n =
     (if n < 10 then [''0123456789'' ! n]
      else digits_of (n div 10) @ [''0123456789'' ! (n mod 10)])"

definition format_int :: "int \<Rightarrow> string" where
  "format_int i = (if i < 0 then CHR ''-'' # digits_of (nat (- i)) else digits_of (nat i))"

section \<open>The standard library: urlparse and parse_qs\<close>

text \<open>
  The functions of \<^verbatim>\<open>urllib.parse\<close> that the program calls, as CPython 3.12 defines
  them. Two parts of the library are parameters of the model:
  \<^item> \<open>check_bracketed_host\<close>: whether a host in brackets is accepted (an IPv6 or
    IPvFuture address; \<^verbatim>\<open>_check_bracketed_host\<close> raises \<^verbatim>\<open>ValueError\<close>
    otherwise);
  \<^item> \<open>unquote_escapes\<close>: the text that \<^verbatim>\<open>unquote\<close> returns for a text with a
    \<^verbatim>\<open>%\<close> in it (the escapes decoded as UTF-8).
  Everything below holds for every choice of the two.
\<close>

record pylib =
  check_bracketed_host :: "string \<Rightarrow> bool"
  unquote_escapes :: "string \<Rightarrow> string"

datatype exn =
    SystemExit string
  | UsageError string
  | ValueError
  | AttributeError

text \<open>
  The components of the result of \<^verbatim>\<open>urlparse\<close> that the program reads; the path
  and its parameters are left out.
\<close>

record ParseResult =
  scheme :: string
  netloc :: string
  query :: string
  fragment :: string

definition scheme_chars :: string where
  "scheme_chars = ''abcdefghijklmnopqrstuvwxyzABCDEFGHIJKLMNOPQRSTUVWXYZ0123456789+-.''"

definition ascii_letters :: string where
  "ascii_letters = ''abcdefghijklmnopqrstuvwxyzABCDEFGHIJKLMNOPQRSTUVWXYZ''"

text \<open>
  \<^verbatim>\<open>urlsplit\<close>, on which \<^verbatim>\<open>urlparse\<close> rests. Leading characters up to the space
  are stripped and tab, carriage return and line feed are removed everywhere; the scheme
  is the text before the first colon when it starts with a letter and consists of scheme
  characters; after \<^verbatim>\<open>//\<close> the authority runs up to the first of \<^verbatim>\<open>/ ? #\<close>; the
  fragment follows the first \<^verbatim>\<open>#\<close> of what remains and the query the first
  \<^verbatim>\<open>?\<close> before it. \<^verbatim>\<open>_checknetloc\<close> never raises on code points below 256.
\<close>

definition split_scheme :: "string \<Rightarrow> string \<times> string" where
  "split_scheme url =
     (case str_partition CHR '':'' url of
        (pre, found, post) \<Rightarrow>
          if found \<and> pre \<noteq> [] \<and> hd pre \<in> set ascii_letters
             \<and> (\<forall>c \<in> set pre. c \<in> set scheme_chars)
          then (lower pre, post) else ([], url))"

definition netloc_char :: "char \<Rightarrow> bool" where
  "netloc_char c = (c \<noteq> CHR ''/'' \<and> c \<noteq> CHR ''?'' \<and> c \<noteq> CHR ''#'')"

definition split_rest :: "string \<Rightarrow> string \<Rightarrow> string \<Rightarrow> ParseResult" where
  "split_rest sch nl url =
     (case str_partition CHR ''#'' url of
        (url', _, frag) \<Rightarrow>
          (case str_partition CHR ''?'' url' of
             (_, _, q) \<Rightarrow> \<lparr>scheme = sch, netloc = nl, query = q, fragment = frag\<rparr>))"

text \<open>
  \<^verbatim>\<open>_check_bracketed_netloc\<close>, whether an authority with brackets is accepted: with a
  bracket in the part after the last \<^verbatim>\<open>@\<close>, nothing precedes it, what follows the
  closing bracket is empty or starts with a colon, and the text between the brackets is
  accepted; without one, the text before the first colon of that part is checked as if it
  stood in brackets.
\<close>

definition check_bracketed_netloc :: "pylib \<Rightarrow> string \<Rightarrow> bool" where
  "check_bracketed_netloc L nl =
     (let hostname_and_port = snd (snd (str_rpartition CHR ''@'' nl))
      in case str_partition CHR ''['' hostname_and_port of
           (before_bracket, True, bracketed) \<Rightarrow>
             (case str_partition CHR '']'' bracketed of
                (h, _, prt) \<Rightarrow>
                  before_bracket = [] \<and> (prt = [] \<or> hd prt = CHR '':'')
                  \<and> check_bracketed_host L h)
         | (_, False, _) \<Rightarrow>
             check_bracketed_host L (fst (str_partition CHR '':'' hostname_and_port)))"

definition urlparse :: "pylib \<Rightarrow> string \<Rightarrow> exn + ParseResult" where
  "urlparse L url0 =
     (let url1 = dropWhile (\<lambda>c. (of_char c :: nat) \<le> 32) url0;
          url2 = filter (\<lambda>c. (of_char c :: nat) \<notin> {9, 10, 13}) url1
      in case split_scheme url2 of
        (sch, url) \<Rightarrow>
          if take 2 url = ''//'' then
            (let nl = takeWhile netloc_char (drop 2 url);
                 rest = dropWhile netloc_char (drop 2 url)
             in if (CHR ''['' \<in> set nl \<and> CHR '']'' \<notin> set nl)
                   \<or> (CHR '']'' \<in> set nl \<and> CHR ''['' \<notin> set nl)
                then Inl ValueError
                else if CHR ''['' \<in> set nl \<and> CHR '']'' \<in> set nl
                        \<and> \<not> check_bracketed_netloc L nl
                then Inl ValueError
                else Inr (split_rest sch nl rest))
          else Inr (split_rest sch [] url))"

text \<open>The properties \<^verbatim>\<open>username\<close>, \<^verbatim>\<open>hostname\<close> and \<^verbatim>\<open>port\<close> of the result.\<close>

definition username :: "ParseResult \<Rightarrow> string option" where
  "username p =
     (case str_rpartition CHR ''@'' (netloc p) of
        (userinfo, True, _) \<Rightarrow> Some (fst (str_partition CHR '':'' userinfo))
      | (_, False, _) \<Rightarrow> None)"

definition hostinfo :: "ParseResult \<Rightarrow> string \<times> string option" where
  "hostinfo p =
     (let hi = snd (snd (str_rpartition CHR ''@'' (netloc p)));
          (h, prt) =
            (case str_partition CHR ''['' hi of
               (_, True, bracketed) \<Rightarrow>
                 (case str_partition CHR '']'' bracketed of
                    (h, _, after) \<Rightarrow> (h, snd (snd (str_partition CHR '':'' after))))
             | (_, False, _) \<Rightarrow>
                 (case str_partition CHR '':'' hi of (h, _, prt) \<Rightarrow> (h, prt)))
      in (h, if prt = [] then None else Some prt))"

definition hostname :: "ParseResult \<Rightarrow> string option" where
  "hostname p =
     (let h = fst (hostinfo p)
      in if h = [] then None
         else (case str_partition CHR ''%'' h of
                 (a, percent, zone) \<Rightarrow>
                   Some (lower a @ (if percent then ''%'' else []) @ zone)))"

definition port :: "ParseResult \<Rightarrow> exn + int option" where
  "port p =
     (case snd (hostinfo p) of
        None \<Rightarrow> Inr None
      | Some prt \<Rightarrow>
          if \<forall>c \<in> set prt. c \<in> set ''0123456789''
          then (let n = int_of_digits prt
                in if 0 \<le> n \<and> n \<le> 65535 then Inr (Some n) else Inl ValueError)
          else Inl ValueError)"

text \<open>
  \<^verbatim>\<open>parse_qs(qs, keep_blank_values=True)\<close>: \<^verbatim>\<open>parse_qsl\<close> splits the query at
  \<^verbatim>\<open>&\<close>, skips empty pieces, splits each piece at its first \<^verbatim>\<open>=\<close> and decodes
  name and value; \<^verbatim>\<open>parse_qs\<close> collects the values of each name into a list, the
  names in the order of their first occurrence.
\<close>

definition unquote :: "pylib \<Rightarrow> string \<Rightarrow> string" where
  "unquote L s = (if CHR ''%'' \<notin> set s then s else unquote_escapes L s)"

definition unquote_plus :: "pylib \<Rightarrow> string \<Rightarrow> string" where
  "unquote_plus L s = unquote L (map (\<lambda>c. if c = CHR ''+'' then CHR '' '' else c) s)"

definition parse_qsl :: "pylib \<Rightarrow> string \<Rightarrow> (string \<times> string) list" where
  "parse_qsl L qs =
     (if qs = [] then []
      else map (\<lambda>name_value.
                  case str_partition CHR ''='' name_value of
                    (name, _, val) \<Rightarrow> (unquote_plus L name, unquote_plus L val))
             (filter (\<lambda>name_value. name_value \<noteq> []) (str_split CHR ''&'' qs)))"

fun add_value :: "(string \<times> string list) list \<Rightarrow> string \<Rightarrow> string \<Rightarrow> (string \<times> string list) list" where
  "add_value [] name val = [(name, [val])]"
| "add_value ((k, vs) # d) name val =
     (if k = name then (k, vs @ [val]) # d else (k, vs) # add_value d name val)"

definition parse_qs :: "pylib \<Rightarrow> string \<Rightarrow> (string \<times> string list) list" where
  "parse_qs L qs = foldl (\<lambda>d (name, val). add_value d name val) [] (parse_qsl L qs)"

section \<open>parse_vless_link\<close>

text \<open>
  \<^verbatim>\<open>sys.exit(message)\<close> raises \<^verbatim>\<open>SystemExit\<close>; an exception of the library is
  not caught and leaves the function as it is.
\<close>

definition parse_vless_link :: "pylib \<Rightarrow> string \<Rightarrow> exn + items" where
  "parse_vless_link L link =
     (if \<not> startswith (lower link) ''vless://''
      then Inl (SystemExit ''Link should start with vless://'')
      else case urlparse L link of
        Inl e \<Rightarrow> Inl e
      | Inr parsed \<Rightarrow>
          if lower (scheme parsed) \<noteq> ''vless''
          then Inl (SystemExit ''Schema should be vless://'')
          else case username parsed of
            None \<Rightarrow> Inl (SystemExit ''User id is undefined'')
          | Some uuid \<Rightarrow>
              if uuid = [] then Inl (SystemExit ''User id is undefined'')
              else case port parsed of
                Inl e \<Rightarrow> Inl e
              | Inr prt \<Rightarrow>
                  (case (hostname parsed, prt) of
                     (Some host, Some n) \<Rightarrow>
                       if host = [] \<or> n = 0
                       then Inl (SystemExit ''Proxy host or port not defined'')
                       else
                         (let raw_qs = parse_qs L (query parsed);
                              params = map (\<lambda>(k, v). (k, PStr (if v \<noteq> [] then hd v else []))) raw_qs;
                              name = (if fragment parsed \<noteq> [] then PStr (fragment parsed)
                                      else PNone)
                          in Inr [(''type'', PStr ''vless''),
                                  (''uuid'', PStr uuid),
                                  (''server'', PDict [(''host'', PStr host), (''port'', PInt n)]),
                                  (''params'', PDict params),
                                  (''name'', name)])
                   | _ \<Rightarrow> Inl (SystemExit ''Proxy host or port not defined'')))"

section \<open>build_proxies, parse_args and main\<close>

definition build_proxies :: "int option \<Rightarrow> int option \<Rightarrow> items" where
  "build_proxies http_port socks_port =
     (case http_port of
        Some h \<Rightarrow> if h \<noteq> 0 then [(''http_port'', PStr (format_int h))] else []
      | None \<Rightarrow> [])
     @
     (case socks_port of
        Some s \<Rightarrow> if s \<noteq> 0 then [(''socks_port'', PStr (format_int s))] else []
      | None \<Rightarrow> [])"

text \<open>
  The arguments as \<^verbatim>\<open>argparse\<close> hands them over: the link and the two optional
  integers. \<^verbatim>\<open>parse_args\<close> then checks the range of each port given;
  \<^verbatim>\<open>parser.error\<close> ends the process with a usage message.
\<close>

record args =
  vless_link :: string
  http_proxy :: "int option"
  socks5_proxy :: "int option"

definition port_in_range :: "int option \<Rightarrow> bool" where
  "port_in_range p = (case p of None \<Rightarrow> True | Some n \<Rightarrow> 1 \<le> n \<and> n \<le> 65535)"

definition parse_args :: "args \<Rightarrow> exn + args" where
  "parse_args a =
     (if \<not> port_in_range (http_proxy a)
      then Inl (UsageError ''--http-proxy should be in range of 1..65535'')
      else if \<not> port_in_range (socks5_proxy a)
      then Inl (UsageError ''--socks5-proxy should be in range of 1..65535'')
      else Inr a)"

text \<open>
  \<^verbatim>\<open>main\<close>: the result \<open>Inr doc\<close> is the document handed to \<^verbatim>\<open>json.dump\<close> and
  written to \<^verbatim>\<open>config.json\<close>; with \<open>Inl e\<close> the process ends before the file is
  opened.
\<close>

definition main :: "pylib \<Rightarrow> args \<Rightarrow> exn + pyval" where
  "main L argv =
     (case parse_args argv of
        Inl e \<Rightarrow> Inl e
      | Inr a \<Rightarrow>
          (case parse_vless_link L (vless_link a) of
             Inl e \<Rightarrow> Inl e
           | Inr vless_info \<Rightarrow>
               (let proxies = build_proxies (http_proxy a) (socks5_proxy a);
                    result = vless_info @
                      [(''proxies'', if proxies \<noteq> [] then PDict proxies else PNone)]
                in case build_config result of
                     None \<Rightarrow> Inl AttributeError
                   | Some doc \<Rightarrow> Inr doc)))"

section \<open>Reading the document\<close>

text \<open>
  A path into a value: \<open>Key k\<close> is \<^verbatim>\<open>v[k]\<close> on a plain dictionary, \<open>Index i\<close> is
  \<^verbatim>\<open>v[i]\<close> on a list. \<open>entries\<close> is the list found at a path.
\<close>

datatype step = Key string | Index nat

fun walk :: "step list \<Rightarrow> pyval \<Rightarrow> pyval option" where
  "walk [] v = Some v"
| "walk (Key k # ps) (PDict kvs) =
     (case map_of kvs k of Some v \<Rightarrow> walk ps v | None \<Rightarrow> None)"
| "walk (Index i # ps) (PList xs) = (if i < length xs then walk ps (xs ! i) else None)"
| "walk _ _ = None"

definition entries :: "step list \<Rightarrow> pyval \<Rightarrow> pyval list" where
  "entries p doc = (case walk p doc of Some (PList xs) \<Rightarrow> xs | _ \<Rightarrow> [])"

text \<open>The key of the second item of a routing rule: what the rule matches on.\<close>

fun matcher :: "pyval \<Rightarrow> string" where
  "matcher (PDict (t # (k, v) # kvs)) = k"
| "matcher _ = []"

text \<open>
  The options of a link as \<^verbatim>\<open>parse_vless_link\<close> stores them under
  \<^verbatim>\<open>"params"\<close>: for each name of the query the first of its values.
\<close>

definition options :: "pylib \<Rightarrow> string \<Rightarrow> (string \<times> string) list" where
  "options L qs = map (\<lambda>(k, v). (k, if v \<noteq> [] then hd v else [])) (parse_qs L qs)"

text \<open>
  A choice of the two library parameters, for running the model on links without
  brackets and without escapes, where neither is consulted; and the link of the
  specification's end-to-end example, with no ports given.
\<close>

definition plain_lib :: pylib where
  "plain_lib = \<lparr>check_bracketed_host = (\<lambda>h. False), unquote_escapes = (\<lambda>s. s)\<rparr>"

definition example_args :: args where
  "example_args =
     \<lparr>vless_link =
        ''vless://ABC-123@example.com:443?security=reality&sni=example.com&pbk=KEY&sid=01#MyNode'',
      http_proxy = None, socks5_proxy = None\<rparr>"

section \<open>Notions used in the proofs\<close>

text \<open>
  The value that \<^verbatim>\<open>build_config\<close> reads for a listener port and for an option of the
  link: the text of the port given, the non-empty value of the option, or the absent
  marker. \<open>url_body\<close> is what follows \<^verbatim>\<open>vless://\<close> once tabs and line breaks are
  removed; \<open>plain_char\<close> collects what the proofs need of a letter of the scheme.
\<close>

definition port_leaf :: "int option \<Rightarrow> pyval" where
  "port_leaf p = (case p of Some n \<Rightarrow> PStr (format_int n) | None \<Rightarrow> absent)"

definition option_leaf :: "(string \<times> string) list \<Rightarrow> string \<Rightarrow> pyval" where
  "option_leaf ps k = (case map_of ps k of Some v \<Rightarrow> if v = [] then absent else PStr v | None \<Rightarrow> absent)"

definition plain_char :: "char \<Rightarrow> bool" where
  "plain_char x \<longleftrightarrow> x \<in> set scheme_chars \<and> x \<in> set ascii_letters
     \<and> \<not> (of_char x :: nat) \<le> 32 \<and> (of_char x :: nat) \<notin> {9, 10, 13} \<and> x \<noteq> CHR '':''"

definition url_body :: "string \<Rightarrow> string" where
  "url_body link = filter (\<lambda>c. (of_char c :: nat) \<notin> {9, 10, 13}) (drop 8 link)"

text \<open>
  No \<^verbatim>\<open>None\<close> anywhere in a value. This says nothing about the absent marker,
  which is a mapping and not \<^verbatim>\<open>None\<close>.
\<close>

fun none_free :: "pyval \<Rightarrow> bool"
and none_free_list :: "pyval list \<Rightarrow> bool"
and none_free_items :: "items \<Rightarrow> bool" where
  "none_free PNone = False"
| "none_free (PBool b) = True"
| "none_free (PInt n) = True"
| "none_free (PStr s) = True"
| "none_free (PList xs) = none_free_list xs"
| "none_free (PDict kvs) = none_free_items kvs"
| "none_free (DotAccessibleDict m kvs) = none_free_items kvs"
| "none_free_list [] = True"
| "none_free_list (x # xs) = (none_free x \<and> none_free_list xs)"
| "none_free_items [] = True"
| "none_free_items ((k, v) # kvs) = (none_free v \<and> none_free_items kvs)"

text \<open>What is found at a path of the document that a run writes, if it writes one.\<close>

definition document_at :: "step list \<Rightarrow> exn + pyval \<Rightarrow> pyval option" where
  "document_at path r = (case r of Inr doc \<Rightarrow> walk path doc | Inl e \<Rightarrow> None)"

text \<open>
  A value with nothing left undefined: it holds no \<^verbatim>\<open>None\<close> and no absent marker,
  that is, no \<^verbatim>\<open>DotAccessibleDict\<close> whose flag \<^verbatim>\<open>__is_missing\<close> is set.
\<close>

fun fully_defined :: "pyval \<Rightarrow> bool"
and fully_defined_list :: "pyval list \<Rightarrow> bool"
and fully_defined_items :: "items \<Rightarrow> bool" where
  "fully_defined PNone = False"
| "fully_defined (PBool b) = True"
| "fully_defined (PInt n) = True"
| "fully_defined (PStr s) = True"
| "fully_defined (PList xs) = fully_defined_list xs"
| "fully_defined (PDict kvs) = fully_defined_items kvs"
| "fully_defined (DotAccessibleDict missing kvs) = (\<not> missing \<and> fully_defined_items kvs)"
| "fully_defined_list [] = True"
| "fully_defined_list (x # xs) = (fully_defined x \<and> fully_defined_list xs)"
| "fully_defined_items [] = True"
| "fully_defined_items ((k, v) # kvs) = (fully_defined v \<and> fully_defined_items kvs)"

text \<open>
  \<^verbatim>\<open>v.n1.n2\<close> and so on: attribute access along a list of names, each step by
  \<open>attr\<close>; \<open>None\<close> when a step yields no field value.
\<close>

fun chain :: "pyval \<Rightarrow> string list \<Rightarrow> pyval option" where
  "chain v [] = Some v"
| "chain v (name # names) = (case attr v name of Some w \<Rightarrow> chain w names | None \<Rightarrow> None)"

section \<open>The document that build_config returns\<close>

lemma build_config_Some:
  assumes "build_config raw = Some doc"
  shows "\<exists>a b c d e f g h i j k l.
     doc = config_document a b c d e f g h i j k l
   \<and> attr (DotAccessibleDict_new False raw) ''proxies'' \<bind> (\<lambda>p. attr p ''socks_port'') = Some a
   \<and> attr (DotAccessibleDict_new False raw) ''proxies'' \<bind> (\<lambda>p. attr p ''http_port'') = Some b
   \<and> attr (DotAccessibleDict_new False raw) ''server'' \<bind> (\<lambda>p. attr p ''host'') = Some c
   \<and> attr (DotAccessibleDict_new False raw) ''server'' \<bind> (\<lambda>p. attr p ''port'') = Some d
   \<and> attr (DotAccessibleDict_new False raw) ''uuid'' = Some e
   \<and> attr (DotAccessibleDict_new False raw) ''params'' \<bind> (\<lambda>p. attr p ''flow'') = Some f
   \<and> attr (DotAccessibleDict_new False raw) ''params'' \<bind> (\<lambda>p. attr p ''type'') = Some g
   \<and> attr (DotAccessibleDict_new False raw) ''params'' \<bind> (\<lambda>p. attr p ''security'') = Some h
   \<and> attr (DotAccessibleDict_new False raw) ''params'' \<bind> (\<lambda>p. attr p ''fp'') = Some i
   \<and> attr (DotAccessibleDict_new False raw) ''params'' \<bind> (\<lambda>p. attr p ''sni'') = Some j
   \<and> attr (DotAccessibleDict_new False raw) ''params'' \<bind> (\<lambda>p. attr p ''pbk'') = Some k
   \<and> attr (DotAccessibleDict_new False raw) ''params'' \<bind> (\<lambda>p. attr p ''sid'') = Some l"
  using assms unfolding build_config_def Let_def
  by (simp only: bind_eq_Some_conv) blast

lemma config_shape:
  fixes a b c d e f g h i j k l
  defines "doc \<equiv> config_document a b c d e f g h i j k l"
  shows "map (walk [Key ''tag'']) (entries [Key ''inbounds''] doc) = [Some (PStr ''socks''), Some (PStr ''http'')]"
    and "\<forall>ib \<in> set (entries [Key ''inbounds''] doc).
           walk [Key ''listen''] ib = Some (PStr ''127.0.0.1'')
         \<and> walk [Key ''sniffing'', Key ''enabled''] ib = Some (PBool True)
         \<and> walk [Key ''sniffing'', Key ''destOverride''] ib = Some (PList [PStr ''http'', PStr ''tls''])"
    and "map (walk [Key ''tag'']) (entries [Key ''outbounds''] doc) = [Some (PStr ''proxy''), Some (PStr ''direct''), Some (PStr ''block'')]"
    and "map (\<lambda>r. (matcher r, walk [Key ''outboundTag''] r)) (entries [Key ''routing'', Key ''rules''] doc) =
          [(''inboundTag'', Some (PStr ''api'')), (''ip'', Some (PStr ''block'')),
           (''protocol'', Some (PStr ''direct'')), (''port'', Some (PStr ''direct'')),
           (''sourcePort'', Some (PStr ''direct'')), (''domain'', Some (PStr ''proxy'')),
           (''domain'', Some (PStr ''direct'')), (''ip'', Some (PStr ''direct''))]"
  by (simp_all add: doc_def config_document_def entries_def)

lemma parse_vless_link_Inr:
  assumes "parse_vless_link L link = Inr info"
  shows "\<exists>p u h n. startswith (lower link) ''vless://'' \<and> urlparse L link = Inr p
     \<and> username p = Some u \<and> u \<noteq> [] \<and> hostname p = Some h \<and> h \<noteq> []
     \<and> port p = Inr (Some n) \<and> n \<noteq> 0
     \<and> info = [(''type'', PStr ''vless''), (''uuid'', PStr u),
               (''server'', PDict [(''host'', PStr h), (''port'', PInt n)]),
               (''params'', PDict (map (\<lambda>(k, v). (k, PStr v)) (options L (query p)))),
               (''name'', if fragment p \<noteq> [] then PStr (fragment p) else PNone)]"
  using assms unfolding parse_vless_link_def options_def Let_def
  by (auto split: if_splits sum.splits option.splits simp: case_prod_unfold comp_def)

lemma map_of_init_items: "map_of (init_items kvs) k = map_option init_value (map_of kvs k)"
  by (induction kvs) auto

lemma digits_of_nonempty: "digits_of n \<noteq> []"
  by (subst digits_of.simps) simp

lemma format_int_nonempty: "format_int i \<noteq> []"
  by (simp add: format_int_def digits_of_nonempty)

lemma attr_Dot:
  assumes "name \<notin> set class_attributes"
  shows "attr (DotAccessibleDict m kvs) name = Some (getattr_hook m kvs (Some name))"
  using assms by (simp add: attribute_def)

lemma attr_new:
  assumes "name \<notin> set class_attributes"
  shows "attr (DotAccessibleDict_new False raw) name =
         Some (case map_of raw name of Some v \<Rightarrow> py_or (init_value v) absent | None \<Rightarrow> absent)"
  using assms
  by (simp add: DotAccessibleDict_new_def attribute_def getattr_hook_def map_of_init_items split: option.splits)

lemma attr_absent:
  assumes "name \<notin> set class_attributes"
  shows "attr absent name = Some absent"
  using assms by (simp add: absent_def DotAccessibleDict_new_def attribute_def getattr_hook_def)

lemma attr_wrapped:
  assumes "name \<notin> set class_attributes"
  shows "attr (DotAccessibleDict False (init_items kvs)) name =
         Some (case map_of kvs name of Some v \<Rightarrow> py_or (init_value v) absent | None \<Rightarrow> absent)"
  using attr_new[OF assms, of kvs] by (simp add: DotAccessibleDict_new_def del: attr.simps)

lemma used_names:
  "''proxies'' \<notin> set class_attributes" "''socks_port'' \<notin> set class_attributes"
  "''http_port'' \<notin> set class_attributes" "''server'' \<notin> set class_attributes"
  "''host'' \<notin> set class_attributes" "''port'' \<notin> set class_attributes"
  "''uuid'' \<notin> set class_attributes" "''params'' \<notin> set class_attributes"
  "''flow'' \<notin> set class_attributes" "''type'' \<notin> set class_attributes"
  "''security'' \<notin> set class_attributes" "''fp'' \<notin> set class_attributes"
  "''sni'' \<notin> set class_attributes" "''pbk'' \<notin> set class_attributes"
  "''sid'' \<notin> set class_attributes"
  by (simp_all add: class_attributes_def)

lemma map_of_PStr: "map_of (map (\<lambda>(k, v). (k, PStr v)) ps) k = map_option PStr (map_of ps k)"
  by (induction ps) auto

lemma params_leaf:
  assumes "name \<notin> set class_attributes"
  shows "attr (DotAccessibleDict False (init_items (map (\<lambda>(k, v). (k, PStr v)) ps))) name
         = Some (option_leaf ps name)"
  by (simp add: attr_wrapped[OF assms] map_of_PStr option_leaf_def py_or_def del: attr.simps split: option.splits)

lemma proxies_leaves:
  assumes "port_in_range hp" "port_in_range sp"
  defines "px \<equiv> (if build_proxies hp sp \<noteq> [] then PDict (build_proxies hp sp) else PNone)"
  shows "(case py_or (init_value px) absent of v \<Rightarrow> attr v ''socks_port'') = Some (port_leaf sp)"
    and "(case py_or (init_value px) absent of v \<Rightarrow> attr v ''http_port'') = Some (port_leaf hp)"
  using assms
  by (auto simp: build_proxies_def port_in_range_def port_leaf_def py_or_def attr_absent used_names
      attr_Dot getattr_hook_def format_int_nonempty simp del: attr.simps split: option.splits)

lemma build_config_record:
  assumes "u \<noteq> []" "h \<noteq> []" "n \<noteq> 0" "port_in_range hp" "port_in_range sp"
  shows "build_config
           ([(''type'', PStr ''vless''), (''uuid'', PStr u),
             (''server'', PDict [(''host'', PStr h), (''port'', PInt n)]),
             (''params'', PDict (map (\<lambda>(k, v). (k, PStr v)) ps)),
             (''name'', nm)]
            @ [(''proxies'', if build_proxies hp sp \<noteq> [] then PDict (build_proxies hp sp) else PNone)])
         = Some (config_document (port_leaf sp) (port_leaf hp) (PStr h) (PInt n) (PStr u)
                   (option_leaf ps ''flow'') (option_leaf ps ''type'') (option_leaf ps ''security'')
                   (option_leaf ps ''fp'') (option_leaf ps ''sni'') (option_leaf ps ''pbk'')
                   (option_leaf ps ''sid''))"
proof -
  let ?px = "if build_proxies hp sp \<noteq> [] then PDict (build_proxies hp sp) else PNone"
  let ?raw = "[(''type'', PStr ''vless''), (''uuid'', PStr u),
             (''server'', PDict [(''host'', PStr h), (''port'', PInt n)]),
             (''params'', PDict (map (\<lambda>(k, v). (k, PStr v)) ps)),
             (''name'', nm)] @ [(''proxies'', ?px)]"
  let ?params = "DotAccessibleDict_new False ?raw"
  have px: "attr ?params ''proxies'' = Some (py_or (init_value ?px) absent)"
    by (simp add: attr_new used_names del: attr.simps)
  have sv: "attr ?params ''server'' = Some (DotAccessibleDict False (init_items [(''host'', PStr h), (''port'', PInt n)]))"
    by (simp add: attr_new used_names py_or_def del: attr.simps)
  have pr: "attr ?params ''params'' = Some (DotAccessibleDict False (init_items (map (\<lambda>(k, v). (k, PStr v)) ps)))"
    by (simp add: attr_new used_names py_or_def del: attr.simps)
  have uu: "attr ?params ''uuid'' = Some (PStr u)"
    using assms(1) by (simp add: attr_new used_names py_or_def del: attr.simps)
  have host: "attr (DotAccessibleDict False (init_items [(''host'', PStr h), (''port'', PInt n)])) ''host'' = Some (PStr h)"
    using assms(2) by (simp add: attr_wrapped used_names py_or_def del: attr.simps init_items.simps)
  have prt: "attr (DotAccessibleDict False (init_items [(''host'', PStr h), (''port'', PInt n)])) ''port'' = Some (PInt n)"
    using assms(3) by (simp add: attr_wrapped used_names py_or_def del: attr.simps init_items.simps)
  note pl = proxies_leaves[OF assms(4,5)]
  show ?thesis
    unfolding build_config_def Let_def
    by (simp only: px sv pr uu host prt pl bind.bind_lunit
          params_leaf[OF used_names(9)] params_leaf[OF used_names(10)]
          params_leaf[OF used_names(11)] params_leaf[OF used_names(12)]
          params_leaf[OF used_names(13)] params_leaf[OF used_names(14)]
          params_leaf[OF used_names(15)])
qed


lemma main_Inr:
  assumes "main L a = Inr doc"
  shows "\<exists>p u h n. startswith (lower (vless_link a)) ''vless://'' \<and> urlparse L (vless_link a) = Inr p
     \<and> username p = Some u \<and> u \<noteq> [] \<and> hostname p = Some h \<and> h \<noteq> []
     \<and> port p = Inr (Some n) \<and> n \<noteq> 0
     \<and> port_in_range (http_proxy a) \<and> port_in_range (socks5_proxy a)
     \<and> doc = config_document (port_leaf (socks5_proxy a)) (port_leaf (http_proxy a))
               (PStr h) (PInt n) (PStr u)
               (option_leaf (options L (query p)) ''flow'')
               (option_leaf (options L (query p)) ''type'')
               (option_leaf (options L (query p)) ''security'')
               (option_leaf (options L (query p)) ''fp'')
               (option_leaf (options L (query p)) ''sni'')
               (option_leaf (options L (query p)) ''pbk'')
               (option_leaf (options L (query p)) ''sid'')"
proof -
  from assms have ranges: "port_in_range (http_proxy a)" "port_in_range (socks5_proxy a)"
    by (auto simp: main_def parse_args_def split: if_splits)
  then have pa: "parse_args a = Inr a" by (simp add: parse_args_def)
  from assms pa obtain info where info: "parse_vless_link L (vless_link a) = Inr info"
    by (auto simp: main_def split: sum.splits)
  from parse_vless_link_Inr[OF info] obtain p u h n where
    p: "startswith (lower (vless_link a)) ''vless://''" "urlparse L (vless_link a) = Inr p"
       "username p = Some u" "u \<noteq> []" "hostname p = Some h" "h \<noteq> []"
       "port p = Inr (Some n)" "n \<noteq> 0"
    and shape: "info = [(''type'', PStr ''vless''), (''uuid'', PStr u),
               (''server'', PDict [(''host'', PStr h), (''port'', PInt n)]),
               (''params'', PDict (map (\<lambda>(k, v). (k, PStr v)) (options L (query p)))),
               (''name'', if fragment p \<noteq> [] then PStr (fragment p) else PNone)]"
    by blast
  note bc = build_config_record[OF p(4) p(6) p(8) ranges, of "options L (query p)"
      "if fragment p \<noteq> [] then PStr (fragment p) else PNone"]
  have "main L a = (case build_config (info @ [(''proxies'',
            if build_proxies (http_proxy a) (socks5_proxy a) \<noteq> []
            then PDict (build_proxies (http_proxy a) (socks5_proxy a)) else PNone)]) of
          None \<Rightarrow> Inl AttributeError | Some d \<Rightarrow> Inr d)"
    by (simp add: main_def pa info Let_def)
  also have "\<dots> = Inr (config_document (port_leaf (socks5_proxy a)) (port_leaf (http_proxy a))
               (PStr h) (PInt n) (PStr u)
               (option_leaf (options L (query p)) ''flow'')
               (option_leaf (options L (query p)) ''type'')
               (option_leaf (options L (query p)) ''security'')
               (option_leaf (options L (query p)) ''fp'')
               (option_leaf (options L (query p)) ''sni'')
               (option_leaf (options L (query p)) ''pbk'')
               (option_leaf (options L (query p)) ''sid''))"
    unfolding shape bc by simp
  finally have "doc = config_document (port_leaf (socks5_proxy a)) (port_leaf (http_proxy a))
               (PStr h) (PInt n) (PStr u)
               (option_leaf (options L (query p)) ''flow'')
               (option_leaf (options L (query p)) ''type'')
               (option_leaf (options L (query p)) ''security'')
               (option_leaf (options L (query p)) ''fp'')
               (option_leaf (options L (query p)) ''sni'')
               (option_leaf (options L (query p)) ''pbk'')
               (option_leaf (options L (query p)) ''sid'')"
    using assms by simp
  with p ranges show ?thesis by blast
qed

lemma prefix_step:
  assumes "take (Suc n) (map f xs) = y # ys"
  obtains x xs' where "xs = x # xs'" "f x = y" "take n (map f xs') = ys"
  using assms by (cases xs) auto

lemma lower_char_cases:
  "lower_char x = CHR ''v'' \<Longrightarrow> x = CHR ''v'' \<or> x = CHR ''V''"
  "lower_char x = CHR ''l'' \<Longrightarrow> x = CHR ''l'' \<or> x = CHR ''L''"
  "lower_char x = CHR ''e'' \<Longrightarrow> x = CHR ''e'' \<or> x = CHR ''E''"
  "lower_char x = CHR ''s'' \<Longrightarrow> x = CHR ''s'' \<or> x = CHR ''S''"
  "lower_char x = CHR '':'' \<Longrightarrow> x = CHR '':''"
  "lower_char x = CHR ''/'' \<Longrightarrow> x = CHR ''/''"
  by (simp_all add: lower_char_def upper_chars_def lower_chars_def split: if_splits)

lemma plain_letters:
  "x = CHR ''v'' \<or> x = CHR ''V'' \<Longrightarrow> plain_char x"
  "x = CHR ''l'' \<or> x = CHR ''L'' \<Longrightarrow> plain_char x"
  "x = CHR ''e'' \<or> x = CHR ''E'' \<Longrightarrow> plain_char x"
  "x = CHR ''s'' \<or> x = CHR ''S'' \<Longrightarrow> plain_char x"
  by (auto simp: plain_char_def scheme_chars_def ascii_letters_def)

lemma startswith_vless:
  assumes "startswith (lower link) ''vless://''"
  shows "\<exists>a b c d e rest. link = a # b # c # d # e # CHR '':'' # CHR ''/'' # CHR ''/'' # rest
     \<and> lower [a, b, c, d, e] = ''vless''
     \<and> plain_char a \<and> plain_char b \<and> plain_char c \<and> plain_char d \<and> plain_char e"
proof -
  from assms have t: "take (Suc (Suc (Suc (Suc (Suc (Suc (Suc (Suc 0))))))))
      (map lower_char link) = ''vless://''"
    by (simp add: startswith_def lower_def)
  obtain a r1 where
    1: "link = a # r1" "lower_char a = CHR ''v''"
       "take (Suc (Suc (Suc (Suc (Suc (Suc (Suc 0))))))) (map lower_char r1) = ''less://''"
    by (rule prefix_step[OF t])
  obtain b r2 where
    2: "r1 = b # r2" "lower_char b = CHR ''l''"
       "take (Suc (Suc (Suc (Suc (Suc (Suc 0)))))) (map lower_char r2) = ''ess://''"
    by (rule prefix_step[OF 1(3)])
  obtain c r3 where
    3: "r2 = c # r3" "lower_char c = CHR ''e''"
       "take (Suc (Suc (Suc (Suc (Suc 0))))) (map lower_char r3) = ''ss://''"
    by (rule prefix_step[OF 2(3)])
  obtain d r4 where
    4: "r3 = d # r4" "lower_char d = CHR ''s''"
       "take (Suc (Suc (Suc (Suc 0)))) (map lower_char r4) = ''s://''"
    by (rule prefix_step[OF 3(3)])
  obtain e r5 where
    5: "r4 = e # r5" "lower_char e = CHR ''s''"
       "take (Suc (Suc (Suc 0))) (map lower_char r5) = ''://''"
    by (rule prefix_step[OF 4(3)])
  obtain f r6 where
    6: "r5 = f # r6" "lower_char f = CHR '':''"
       "take (Suc (Suc 0)) (map lower_char r6) = ''//''"
    by (rule prefix_step[OF 5(3)])
  obtain g r7 where
    7: "r6 = g # r7" "lower_char g = CHR ''/''"
       "take (Suc 0) (map lower_char r7) = ''/''"
    by (rule prefix_step[OF 6(3)])
  obtain h rest where
    8: "r7 = h # rest" "lower_char h = CHR ''/''"
    by (rule prefix_step[OF 7(3)])
  have link: "link = a # b # c # d # e # f # g # h # rest"
    by (simp add: 1 2 3 4 5 6 7 8)
  note l = 1(2) 2(2) 3(2) 4(2) 5(2) 6(2) 7(2) 8(2)
  have fgh: "f = CHR '':''" "g = CHR ''/''" "h = CHR ''/''"
    by (rule lower_char_cases(5)[OF 6(2)], rule lower_char_cases(6)[OF 7(2)],
        rule lower_char_cases(6)[OF 8(2)])
  have "plain_char a" "plain_char b" "plain_char c" "plain_char d" "plain_char e"
    by (rule plain_letters(1)[OF lower_char_cases(1)[OF 1(2)]],
        rule plain_letters(2)[OF lower_char_cases(2)[OF 2(2)]],
        rule plain_letters(3)[OF lower_char_cases(3)[OF 3(2)]],
        rule plain_letters(4)[OF lower_char_cases(4)[OF 4(2)]],
        rule plain_letters(4)[OF lower_char_cases(4)[OF 5(2)]])
  moreover have "lower [a, b, c, d, e] = ''vless''"
    using l(1-5) by (simp add: lower_def)
  ultimately show ?thesis using link fgh by blast
qed


lemma urlparse_vless:
  assumes "startswith (lower link) ''vless://''"
  shows "urlparse L link =
     (let nl = takeWhile netloc_char (url_body link);
          rest = dropWhile netloc_char (url_body link)
      in if (CHR ''['' \<in> set nl \<and> CHR '']'' \<notin> set nl)
            \<or> (CHR '']'' \<in> set nl \<and> CHR ''['' \<notin> set nl)
         then Inl ValueError
         else if CHR ''['' \<in> set nl \<and> CHR '']'' \<in> set nl
                 \<and> \<not> check_bracketed_netloc L nl
         then Inl ValueError
         else Inr (split_rest ''vless'' nl rest))"
proof -
  from startswith_vless[OF assms] obtain a b c d e rest where
    link: "link = a # b # c # d # e # CHR '':'' # CHR ''/'' # CHR ''/'' # rest"
    and low: "lower [a, b, c, d, e] = ''vless''"
    and pl: "plain_char a" "plain_char b" "plain_char c" "plain_char d" "plain_char e"
    by blast
  let ?F = "\<lambda>c. (of_char c :: nat) \<notin> {9, 10, 13}"
  have dw: "dropWhile (\<lambda>c. (of_char c :: nat) \<le> 32) link = link"
    using pl(1) by (simp add: link plain_char_def)
  have fl: "filter ?F link = [a, b, c, d, e] @ CHR '':'' # CHR ''/'' # CHR ''/'' # url_body link"
    using pl by (simp add: link plain_char_def url_body_def)
  have pt: "str_partition CHR '':'' ([a, b, c, d, e] @ CHR '':'' # CHR ''/'' # CHR ''/'' # url_body link)
      = ([a, b, c, d, e], True, CHR ''/'' # CHR ''/'' # url_body link)"
    using pl by (simp add: str_partition_def plain_char_def)
  have sp: "split_scheme (filter ?F (dropWhile (\<lambda>c. (of_char c :: nat) \<le> 32) link))
            = (''vless'', CHR ''/'' # CHR ''/'' # url_body link)"
    unfolding dw fl split_scheme_def pt using pl low by (simp add: plain_char_def)
  show ?thesis
    unfolding urlparse_def Let_def sp by simp
qed

lemma urlparse_scheme:
  assumes "startswith (lower link) ''vless://''" "urlparse L link = Inr p"
  shows "scheme p = ''vless''"
  using assms(2) unfolding urlparse_vless[OF assms(1)] Let_def
  by (auto simp: split_rest_def split: if_splits prod.splits)

text \<open>
  Claim C1. Whenever \<^verbatim>\<open>main\<close> writes a document, it has exactly two inbound entries,
  tagged socks then http, each listening on 127.0.0.1 with sniffing enabled and the
  destination override http, tls; exactly three outbound entries, tagged proxy, direct,
  block; and exactly eight routing rules in this order: API traffic to api, private
  addresses to block, BitTorrent by protocol, by port and by source port to direct, the
  extra exceptions to proxy, the country domains to direct, the country addresses to
  direct.
\<close>

theorem C1_fixed_orders:
  assumes "main L argv = Inr doc"
  shows "map (walk [Key ''tag'']) (entries [Key ''inbounds''] doc)
           = [Some (PStr ''socks''), Some (PStr ''http'')]
    \<and> (\<forall>ib \<in> set (entries [Key ''inbounds''] doc).
           walk [Key ''listen''] ib = Some (PStr ''127.0.0.1'')
         \<and> walk [Key ''sniffing'', Key ''enabled''] ib = Some (PBool True)
         \<and> walk [Key ''sniffing'', Key ''destOverride''] ib
              = Some (PList [PStr ''http'', PStr ''tls'']))
    \<and> map (walk [Key ''tag'']) (entries [Key ''outbounds''] doc)
           = [Some (PStr ''proxy''), Some (PStr ''direct''), Some (PStr ''block'')]
    \<and> length (entries [Key ''routing'', Key ''rules''] doc) = 8
    \<and> map (\<lambda>r. (matcher r, walk [Key ''outboundTag''] r))
          (entries [Key ''routing'', Key ''rules''] doc)
        = [(''inboundTag'', Some (PStr ''api'')), (''ip'', Some (PStr ''block'')),
           (''protocol'', Some (PStr ''direct'')), (''port'', Some (PStr ''direct'')),
           (''sourcePort'', Some (PStr ''direct'')), (''domain'', Some (PStr ''proxy'')),
           (''domain'', Some (PStr ''direct'')), (''ip'', Some (PStr ''direct''))]
    \<and> walk [Key ''routing'', Key ''rules'', Index 0, Key ''inboundTag''] doc
        = Some (PList [PStr ''api''])
    \<and> walk [Key ''routing'', Key ''rules'', Index 1, Key ''ip''] doc
        = Some (PList [PStr ''geoip:private''])
    \<and> walk [Key ''routing'', Key ''rules'', Index 2, Key ''protocol''] doc
        = Some (PList [PStr ''bittorrent''])
    \<and> walk [Key ''routing'', Key ''rules'', Index 5, Key ''domain''] doc
        = Some (PList [PStr ''ext:customgeo.dat:coherence-extra-exceptions''])"
proof -
  from main_Inr[OF assms] obtain a b c d e f g h i j k l where
    doc: "doc = config_document a b c d e f g h i j k l"
    by blast
  have "length (entries [Key ''routing'', Key ''rules''] doc) = 8"
    and "walk [Key ''routing'', Key ''rules'', Index 0, Key ''inboundTag''] doc
        = Some (PList [PStr ''api''])"
    and "walk [Key ''routing'', Key ''rules'', Index 1, Key ''ip''] doc
        = Some (PList [PStr ''geoip:private''])"
    and "walk [Key ''routing'', Key ''rules'', Index 2, Key ''protocol''] doc
        = Some (PList [PStr ''bittorrent''])"
    and "walk [Key ''routing'', Key ''rules'', Index 5, Key ''domain''] doc
        = Some (PList [PStr ''ext:customgeo.dat:coherence-extra-exceptions''])"
    by (simp_all add: doc config_document_def entries_def)
  with config_shape[of a b c d e f g h i j k l] show ?thesis
    unfolding doc by blast
qed

theorem C1_fixed_orders_witness:
  "main plain_lib example_args
     = Inr (config_document absent absent (PStr ''example.com'') (PInt 443) (PStr ''ABC-123'')
              absent absent (PStr ''reality'') absent (PStr ''example.com'') (PStr ''KEY'')
              (PStr ''01''))
   \<and> map (walk [Key ''tag''])
        (entries [Key ''inbounds'']
           (config_document absent absent (PStr ''example.com'') (PInt 443) (PStr ''ABC-123'')
              absent absent (PStr ''reality'') absent (PStr ''example.com'') (PStr ''KEY'')
              (PStr ''01'')))
      = [Some (PStr ''socks''), Some (PStr ''http'')]
   \<and> length (entries [Key ''routing'', Key ''rules'']
           (config_document absent absent (PStr ''example.com'') (PInt 443) (PStr ''ABC-123'')
              absent absent (PStr ''reality'') absent (PStr ''example.com'') (PStr ''KEY'')
              (PStr ''01''))) = 8"
proof -
  have run: "main plain_lib example_args
     = Inr (config_document absent absent (PStr ''example.com'') (PInt 443) (PStr ''ABC-123'')
              absent absent (PStr ''reality'') absent (PStr ''example.com'') (PStr ''KEY'')
              (PStr ''01''))"
    by code_simp
  from C1_fixed_orders[OF run] run show ?thesis by blast
qed

lemma map_of_add_value:
  "map_of (add_value d n v) k =
     (if k = n then Some (case map_of d n of Some vs \<Rightarrow> vs @ [v] | None \<Rightarrow> [v])
      else map_of d k)"
  by (induction d n v rule: add_value.induct) auto

lemma keys_add_value:
  "map fst (add_value d n v) = (if n \<in> set (map fst d) then map fst d else map fst d @ [n])"
  by (induction d n v rule: add_value.induct) auto

lemma map_of_foldl_add_value:
  "map_of (foldl (\<lambda>d (n, v). add_value d n v) d ps) k =
     (case map_of d k of
        Some vs \<Rightarrow> Some (vs @ map snd (filter (\<lambda>nv. fst nv = k) ps))
      | None \<Rightarrow> (if map snd (filter (\<lambda>nv. fst nv = k) ps) = [] then None
                 else Some (map snd (filter (\<lambda>nv. fst nv = k) ps))))"
proof (induction ps arbitrary: d)
  case Nil
  then show ?case by (simp split: option.splits)
next
  case (Cons nv ps)
  obtain n v where nv: "nv = (n, v)" by (cases nv)
  show ?case
    by (simp add: nv Cons.IH map_of_add_value split: option.splits)
qed

lemma distinct_foldl_add_value:
  "distinct (map fst d) \<Longrightarrow> distinct (map fst (foldl (\<lambda>d (n, v). add_value d n v) d ps))"
proof (induction ps arbitrary: d)
  case Nil
  then show ?case by simp
next
  case (Cons nv ps)
  obtain n v where nv: "nv = (n, v)" by (cases nv)
  from Cons.prems have "distinct (map fst (add_value d n v))"
    by (simp add: keys_add_value)
  from Cons.IH[OF this] show ?case by (simp add: nv)
qed

lemma map_of_parse_qs:
  "map_of (parse_qs L qs) k =
     (if map snd (filter (\<lambda>nv. fst nv = k) (parse_qsl L qs)) = [] then None
      else Some (map snd (filter (\<lambda>nv. fst nv = k) (parse_qsl L qs))))"
  by (simp add: parse_qs_def map_of_foldl_add_value)

lemma map_of_values:
  "map_of ps k = (case map snd (filter (\<lambda>nv. fst nv = k) ps) of [] \<Rightarrow> None | v # vs \<Rightarrow> Some v)"
proof (induction ps)
  case Nil
  show ?case by simp
next
  case (Cons nv ps)
  obtain n v where nv: "nv = (n, v)" by (cases nv)
  show ?case by (cases "n = k") (simp_all add: nv Cons.IH)
qed

lemma map_of_first_value:
  "map_of (map (\<lambda>(n, vs). (n, if vs \<noteq> [] then hd vs else [])) d) k
   = (case map_of d k of None \<Rightarrow> None | Some vs \<Rightarrow> Some (if vs \<noteq> [] then hd vs else []))"
proof (induction d)
  case Nil
  show ?case by simp
next
  case (Cons a d)
  obtain n vs where a: "a = (n, vs)" by (cases a)
  show ?case by (cases "n = k") (simp_all add: a Cons.IH)
qed

lemma map_of_options: "map_of (options L qs) k = map_of (parse_qsl L qs) k"
proof (cases "map snd (filter (\<lambda>nv. fst nv = k) (parse_qsl L qs))")
  case Nil
  then show ?thesis
    by (simp add: options_def map_of_first_value map_of_parse_qs map_of_values[of "parse_qsl L qs"])
next
  case (Cons v vs)
  then show ?thesis
    by (simp add: options_def map_of_first_value map_of_parse_qs map_of_values[of "parse_qsl L qs"])
qed

lemma keys_options: "distinct (map fst (options L qs))"
proof -
  have "map fst (options L qs) = map fst (parse_qs L qs)"
    by (simp add: options_def case_prod_unfold comp_def)
  then show ?thesis
    using distinct_foldl_add_value[of "[]" "parse_qsl L qs"] by (simp add: parse_qs_def)
qed

lemma map_of_first_occurrence:
  "k \<notin> fst ` set before \<Longrightarrow> map_of (before @ (k, v) # rest) k = Some v"
  by (induction before) auto


lemma pieces_kept:
  assumes "piece \<in> set (str_split CHR ''&'' qs)" "piece \<noteq> []"
  shows "(unquote_plus L (fst (str_partition CHR ''='' piece)),
          unquote_plus L (snd (snd (str_partition CHR ''='' piece)))) \<in> set (parse_qsl L qs)"
proof -
  from assms have "qs \<noteq> []" by auto
  with assms show ?thesis
    by (force simp: parse_qsl_def case_prod_unfold)
qed

lemma option_keys:
  assumes "(k, v) \<in> set (parse_qsl L qs)"
  shows "k \<in> fst ` set (options L qs)"
proof -
  from assms have "map_of (parse_qsl L qs) k \<noteq> None"
    by (metis image_eqI fst_conv map_of_eq_None_iff)
  then have "map_of (options L qs) k \<noteq> None" by (simp add: map_of_options)
  then show ?thesis by (simp add: map_of_eq_None_iff)
qed

text \<open>
  Claim C6. In the record that \<^verbatim>\<open>parse_vless_link\<close> returns, the entry
  \<^verbatim>\<open>"params"\<close> holds the options of the query, each name once. The value of a name
  is the value of its first occurrence among the decoded pairs of the query, the empty
  string included; and every non-empty piece of the query between \<^verbatim>\<open>&\<close> has its
  name among the options, whether its value is blank or not.
\<close>

theorem C6_first_value_kept:
  assumes "parse_vless_link L link = Inr info" and "urlparse L link = Inr p"
  shows "walk [Key ''params''] (PDict info)
           = Some (PDict (map (\<lambda>(k, v). (k, PStr v)) (options L (query p))))
    \<and> distinct (map fst (options L (query p)))
    \<and> (\<forall>before k v rest.
          parse_qsl L (query p) = before @ (k, v) # rest \<longrightarrow> k \<notin> fst ` set before
          \<longrightarrow> map_of (options L (query p)) k = Some v
              \<and> walk [Key ''params'', Key k] (PDict info) = Some (PStr v))
    \<and> (\<forall>piece \<in> set (str_split CHR ''&'' (query p)). piece \<noteq> []
          \<longrightarrow> unquote_plus L (fst (str_partition CHR ''='' piece))
                \<in> fst ` set (options L (query p)))"
proof -
  from parse_vless_link_Inr[OF assms(1)] assms(2) have
    info: "info = [(''type'', PStr ''vless''), (''uuid'', info_uuid),
               (''server'', info_server),
               (''params'', PDict (map (\<lambda>(k, v). (k, PStr v)) (options L (query p)))),
               (''name'', if fragment p \<noteq> [] then PStr (fragment p) else PNone)]"
    if "info_uuid = snd (info ! 1)" "info_server = snd (info ! 2)" for info_uuid info_server
    using that by auto
  have params: "walk [Key ''params''] (PDict info)
           = Some (PDict (map (\<lambda>(k, v). (k, PStr v)) (options L (query p))))"
    by (subst info[OF refl refl]) simp
  have first: "map_of (options L (query p)) k = Some v
        \<and> walk [Key ''params'', Key k] (PDict info) = Some (PStr v)"
    if "parse_qsl L (query p) = before @ (k, v) # rest" "k \<notin> fst ` set before"
    for before k v rest
  proof -
    have m: "map_of (options L (query p)) k = Some v"
      using map_of_first_occurrence[OF that(2), of v rest] that(1) by (simp add: map_of_options)
    have "walk [Key ''params'', Key k] (PDict info)
        = walk [Key k] (PDict (map (\<lambda>(k, v). (k, PStr v)) (options L (query p))))"
      by (subst info[OF refl refl]) simp
    with m show ?thesis by (simp add: map_of_PStr)
  qed
  have kept: "unquote_plus L (fst (str_partition CHR ''='' piece)) \<in> fst ` set (options L (query p))"
    if "piece \<in> set (str_split CHR ''&'' (query p))" "piece \<noteq> []" for piece
    using option_keys[OF pieces_kept[OF that]] .
  from params keys_options first kept show ?thesis by blast
qed

theorem C6_first_value_kept_witness:
  "parse_vless_link plain_lib ''vless://u@h:1?a=1&a=2&b=&c''
     = Inr [(''type'', PStr ''vless''), (''uuid'', PStr ''u''),
            (''server'', PDict [(''host'', PStr ''h''), (''port'', PInt 1)]),
            (''params'', PDict [(''a'', PStr ''1''), (''b'', PStr []), (''c'', PStr [])]),
            (''name'', PNone)]
   \<and> parse_qsl plain_lib ''a=1&a=2&b=&c''
     = [(''a'', ''1''), (''a'', ''2''), (''b'', []), (''c'', [])]
   \<and> map_of (options plain_lib ''a=1&a=2&b=&c'') ''a'' = Some ''1''
   \<and> map_of (options plain_lib ''a=1&a=2&b=&c'') ''b'' = Some []
   \<and> ''c'' \<in> fst ` set (options plain_lib ''a=1&a=2&b=&c'')"
proof -
  let ?link = "''vless://u@h:1?a=1&a=2&b=&c''"
  let ?p = "\<lparr>scheme = ''vless'', netloc = ''u@h:1'', query = ''a=1&a=2&b=&c'', fragment = []\<rparr>"
  have run: "parse_vless_link plain_lib ?link
     = Inr [(''type'', PStr ''vless''), (''uuid'', PStr ''u''),
            (''server'', PDict [(''host'', PStr ''h''), (''port'', PInt 1)]),
            (''params'', PDict [(''a'', PStr ''1''), (''b'', PStr []), (''c'', PStr [])]),
            (''name'', PNone)]"
    by code_simp
  have parsed: "urlparse plain_lib ?link = Inr ?p"
    by code_simp
  have pairs: "parse_qsl plain_lib ''a=1&a=2&b=&c''
     = [(''a'', ''1''), (''a'', ''2''), (''b'', []), (''c'', [])]"
    by code_simp
  have pieces: "''c'' \<in> set (str_split CHR ''&'' ''a=1&a=2&b=&c'')"
    by code_simp
  have name: "unquote_plus plain_lib (fst (str_partition CHR ''='' ''c'')) = ''c''"
    by code_simp
  have q: "query ?p = ''a=1&a=2&b=&c''" by simp
  note c6 = C6_first_value_kept[OF run parsed, unfolded q]
  note first = c6[THEN conjunct2, THEN conjunct2, THEN conjunct1, rule_format, THEN conjunct1]
  note kept = c6[THEN conjunct2, THEN conjunct2, THEN conjunct2, rule_format]
  have a: "map_of (options plain_lib ''a=1&a=2&b=&c'') ''a'' = Some ''1''"
    by (rule first[of "[]" "''a''" "''1''" "[(''a'', ''2''), (''b'', []), (''c'', [])]"])
       (simp_all add: pairs)
  have b: "map_of (options plain_lib ''a=1&a=2&b=&c'') ''b'' = Some []"
    by (rule first[of "[(''a'', ''1''), (''a'', ''2'')]" "''b''" "[]" "[(''c'', [])]"])
       (simp_all add: pairs)
  have "unquote_plus plain_lib (fst (str_partition CHR ''='' ''c''))
      \<in> fst ` set (options plain_lib ''a=1&a=2&b=&c'')"
    by (rule kept[OF pieces]) simp
  with name have c: "''c'' \<in> fst ` set (options plain_lib ''a=1&a=2&b=&c'')" by simp
  from run pairs a b c show ?thesis by blast
qed

lemma config_leaves:
  fixes a b c d e f g h i j k l
  defines "doc \<equiv> config_document a b c d e f g h i j k l"
  shows "walk [Key ''inbounds'', Index 0, Key ''port''] doc = Some (py_or a (PInt 8107))"
    and "walk [Key ''inbounds'', Index 1, Key ''port''] doc = Some (py_or b (PInt 8108))"
    and "walk [Key ''outbounds'', Index 0, Key ''settings'', Key ''vnext'', Index 0,
               Key ''address''] doc = Some c"
    and "walk [Key ''outbounds'', Index 0, Key ''settings'', Key ''vnext'', Index 0,
               Key ''port''] doc = Some d"
    and "walk [Key ''outbounds'', Index 0, Key ''settings'', Key ''vnext'', Index 0,
               Key ''users'', Index 0, Key ''id''] doc = Some e"
    and "walk [Key ''outbounds'', Index 0, Key ''settings'', Key ''vnext'', Index 0,
               Key ''users'', Index 0, Key ''flow''] doc
         = Some (py_or f (PStr ''xtls-rprx-vision-udp443''))"
    and "walk [Key ''outbounds'', Index 0, Key ''streamSettings'', Key ''network''] doc
         = Some (py_or g (PStr ''tcp''))"
    and "walk [Key ''outbounds'', Index 0, Key ''streamSettings'', Key ''security''] doc
         = Some (py_or h (PStr ''reality''))"
    and "walk [Key ''outbounds'', Index 0, Key ''streamSettings'', Key ''realitySettings'',
               Key ''fingerprint''] doc = Some i"
    and "walk [Key ''outbounds'', Index 0, Key ''streamSettings'', Key ''realitySettings'',
               Key ''serverName''] doc = Some j"
    and "walk [Key ''outbounds'', Index 0, Key ''streamSettings'', Key ''realitySettings'',
               Key ''publicKey''] doc = Some k"
    and "walk [Key ''outbounds'', Index 0, Key ''streamSettings'', Key ''realitySettings'',
               Key ''shortId''] doc = Some l"
  by (simp_all add: doc_def config_document_def)

lemma none_free_config:
  "none_free (config_document a b c d e f g h i j k l) \<longleftrightarrow>
     none_free (py_or a (PInt 8107)) \<and> none_free (py_or b (PInt 8108)) \<and> none_free c
     \<and> none_free d \<and> none_free e \<and> none_free (py_or f (PStr ''xtls-rprx-vision-udp443''))
     \<and> none_free (py_or g (PStr ''tcp'')) \<and> none_free (py_or h (PStr ''reality''))
     \<and> none_free i \<and> none_free j \<and> none_free k \<and> none_free l"
  by (simp add: config_document_def)

lemma none_free_absent: "none_free absent"
  by (simp add: absent_def DotAccessibleDict_new_def)

lemma none_free_option_leaf: "none_free (option_leaf ps k)"
  by (simp add: option_leaf_def none_free_absent split: option.splits)

lemma none_free_port_leaf: "none_free (port_leaf p)"
  by (simp add: port_leaf_def none_free_absent split: option.splits)

lemma none_free_py_or: "none_free x \<Longrightarrow> none_free y \<Longrightarrow> none_free (py_or x y)"
  by (simp add: py_or_def)

lemma falsy_absent: "\<not> truthy absent"
  by (simp add: absent_def DotAccessibleDict_new_def)

lemma py_or_absent: "py_or absent y = y"
  by (simp add: py_or_def absent_def DotAccessibleDict_new_def)

lemma py_or_option_leaf:
  "py_or (option_leaf ps k) y =
     (case map_of ps k of Some v \<Rightarrow> if v = [] then y else PStr v | None \<Rightarrow> y)"
  by (simp add: option_leaf_def py_or_def falsy_absent split: option.splits)

lemma py_or_port_leaf:
  "py_or (port_leaf p) y = (case p of Some n \<Rightarrow> PStr (format_int n) | None \<Rightarrow> y)"
  by (simp add: port_leaf_def py_or_def falsy_absent format_int_nonempty split: option.splits)

lemma map_of_missing: "k \<notin> fst ` set ps \<Longrightarrow> map_of ps k = None"
  by (simp add: map_of_eq_None_iff)

lemma format_9999: "format_int 9999 = ''9999''"
  by (simp add: format_int_def digits_of.simps[of 9999] digits_of.simps[of 999]
      digits_of.simps[of 99] digits_of.simps[of 9])

lemma lower_vless: "lower ''vless'' = ''vless''"
  by code_simp

lemma parse_vless_link_eq:
  assumes "startswith (lower link) ''vless://''" "urlparse L link = Inr p"
    "username p = Some u" "u \<noteq> []" "hostname p = Some h" "h \<noteq> []"
    "port p = Inr (Some n)" "n \<noteq> 0"
  shows "parse_vless_link L link =
     Inr [(''type'', PStr ''vless''), (''uuid'', PStr u),
          (''server'', PDict [(''host'', PStr h), (''port'', PInt n)]),
          (''params'', PDict (map (\<lambda>(k, v). (k, PStr v)) (options L (query p)))),
          (''name'', if fragment p \<noteq> [] then PStr (fragment p) else PNone)]"
  using assms urlparse_scheme[OF assms(1,2)]
  by (simp add: parse_vless_link_def options_def Let_def lower_vless case_prod_unfold comp_def)

lemma main_eq:
  assumes "port_in_range (http_proxy a)" "port_in_range (socks5_proxy a)"
    "startswith (lower (vless_link a)) ''vless://''" "urlparse L (vless_link a) = Inr p"
    "username p = Some u" "u \<noteq> []" "hostname p = Some h" "h \<noteq> []"
    "port p = Inr (Some n)" "n \<noteq> 0"
  shows "main L a = Inr (config_document (port_leaf (socks5_proxy a)) (port_leaf (http_proxy a))
               (PStr h) (PInt n) (PStr u)
               (option_leaf (options L (query p)) ''flow'')
               (option_leaf (options L (query p)) ''type'')
               (option_leaf (options L (query p)) ''security'')
               (option_leaf (options L (query p)) ''fp'')
               (option_leaf (options L (query p)) ''sni'')
               (option_leaf (options L (query p)) ''pbk'')
               (option_leaf (options L (query p)) ''sid''))"
proof -
  have pa: "parse_args a = Inr a" using assms(1,2) by (simp add: parse_args_def)
  note pv = parse_vless_link_eq[OF assms(3-10)]
  note bc = build_config_record[OF assms(6) assms(8) assms(10) assms(1,2), of "options L (query p)"
      "if fragment p \<noteq> [] then PStr (fragment p) else PNone"]
  define info where "info = [(''type'', PStr ''vless''), (''uuid'', PStr u),
          (''server'', PDict [(''host'', PStr h), (''port'', PInt n)]),
          (''params'', PDict (map (\<lambda>(k, v). (k, PStr v)) (options L (query p)))),
          (''name'', if fragment p \<noteq> [] then PStr (fragment p) else PNone)]"
  have pv': "parse_vless_link L (vless_link a) = Inr info"
    using pv by (simp add: info_def)
  have "main L a = (case build_config (info @ [(''proxies'',
            if build_proxies (http_proxy a) (socks5_proxy a) \<noteq> []
            then PDict (build_proxies (http_proxy a) (socks5_proxy a)) else PNone)]) of
          None \<Rightarrow> Inl AttributeError | Some d \<Rightarrow> Inr d)"
    by (simp add: main_def pa pv' Let_def)
  also have "\<dots> = Inr (config_document (port_leaf (socks5_proxy a)) (port_leaf (http_proxy a))
               (PStr h) (PInt n) (PStr u)
               (option_leaf (options L (query p)) ''flow'')
               (option_leaf (options L (query p)) ''type'')
               (option_leaf (options L (query p)) ''security'')
               (option_leaf (options L (query p)) ''fp'')
               (option_leaf (options L (query p)) ''sni'')
               (option_leaf (options L (query p)) ''pbk'')
               (option_leaf (options L (query p)) ''sid''))"
    unfolding info_def bc by simp
  finally show ?thesis .
qed


lemma main_doc_options:
  assumes "main L argv = Inr doc" "urlparse L (vless_link argv) = Inr p"
  shows "\<exists>c d e. doc = config_document (port_leaf (socks5_proxy argv)) (port_leaf (http_proxy argv))
               c d e
               (option_leaf (options L (query p)) ''flow'')
               (option_leaf (options L (query p)) ''type'')
               (option_leaf (options L (query p)) ''security'')
               (option_leaf (options L (query p)) ''fp'')
               (option_leaf (options L (query p)) ''sni'')
               (option_leaf (options L (query p)) ''pbk'')
               (option_leaf (options L (query p)) ''sid'')
       \<and> none_free c \<and> none_free d \<and> none_free e"
proof -
  from main_Inr[OF assms(1)] assms(2) obtain u h n where
    "doc = config_document (port_leaf (socks5_proxy argv)) (port_leaf (http_proxy argv))
               (PStr h) (PInt n) (PStr u)
               (option_leaf (options L (query p)) ''flow'')
               (option_leaf (options L (query p)) ''type'')
               (option_leaf (options L (query p)) ''security'')
               (option_leaf (options L (query p)) ''fp'')
               (option_leaf (options L (query p)) ''sni'')
               (option_leaf (options L (query p)) ''pbk'')
               (option_leaf (options L (query p)) ''sid'')"
    by auto
  moreover have "none_free (PStr h)" "none_free (PInt n)" "none_free (PStr u)" by simp_all
  ultimately show ?thesis by blast
qed

text \<open>
  Claim C2. When the decoded query of the link has no pair named flow (type, security),
  the outbound of the document carries flow xtls-rprx-vision-udp443 (network tcp,
  security reality). When the first pair named flow has a non-empty value, such as
  xtls-rprx-vision, the outbound carries that value.
\<close>

theorem C2_option_defaults:
  assumes "main L argv = Inr doc" and "urlparse L (vless_link argv) = Inr p"
  shows "(''flow'' \<notin> fst ` set (parse_qsl L (query p)) \<longrightarrow>
            walk [Key ''outbounds'', Index 0, Key ''settings'', Key ''vnext'', Index 0,
                  Key ''users'', Index 0, Key ''flow''] doc
              = Some (PStr ''xtls-rprx-vision-udp443''))
    \<and> (''type'' \<notin> fst ` set (parse_qsl L (query p)) \<longrightarrow>
            walk [Key ''outbounds'', Index 0, Key ''streamSettings'', Key ''network''] doc
              = Some (PStr ''tcp''))
    \<and> (''security'' \<notin> fst ` set (parse_qsl L (query p)) \<longrightarrow>
            walk [Key ''outbounds'', Index 0, Key ''streamSettings'', Key ''security''] doc
              = Some (PStr ''reality''))
    \<and> (\<forall>before v rest.
          parse_qsl L (query p) = before @ (''flow'', v) # rest \<longrightarrow>
          ''flow'' \<notin> fst ` set before \<longrightarrow> v \<noteq> [] \<longrightarrow>
            walk [Key ''outbounds'', Index 0, Key ''settings'', Key ''vnext'', Index 0,
                  Key ''users'', Index 0, Key ''flow''] doc
              = Some (PStr v))"
proof -
  from main_doc_options[OF assms] obtain c d e where
    doc: "doc = config_document (port_leaf (socks5_proxy argv)) (port_leaf (http_proxy argv))
               c d e
               (option_leaf (options L (query p)) ''flow'')
               (option_leaf (options L (query p)) ''type'')
               (option_leaf (options L (query p)) ''security'')
               (option_leaf (options L (query p)) ''fp'')
               (option_leaf (options L (query p)) ''sni'')
               (option_leaf (options L (query p)) ''pbk'')
               (option_leaf (options L (query p)) ''sid'')"
    by blast
  have missing: "py_or (option_leaf (options L (query p)) k) y = y"
    if "k \<notin> fst ` set (parse_qsl L (query p))" for k y
    using map_of_missing[OF that] by (simp add: py_or_option_leaf map_of_options)
  have given: "py_or (option_leaf (options L (query p)) k) y = PStr v"
    if "parse_qsl L (query p) = before @ (k, v) # rest" "k \<notin> fst ` set before" "v \<noteq> []"
    for k y before v rest
    using map_of_first_occurrence[OF that(2), of v rest] that(1,3)
    by (simp add: py_or_option_leaf map_of_options)
  show ?thesis
    unfolding doc config_leaves using missing given by blast
qed

lemma example_plain_run:
  "main plain_lib \<lparr>vless_link = ''vless://ABC-123@example.com:443?sni=example.com'',
                   http_proxy = None, socks5_proxy = None\<rparr>
   = Inr (config_document absent absent (PStr ''example.com'') (PInt 443) (PStr ''ABC-123'')
            absent absent absent absent (PStr ''example.com'') absent absent)"
  by code_simp

lemma example_plain_parse:
  "urlparse plain_lib ''vless://ABC-123@example.com:443?sni=example.com''
   = Inr \<lparr>scheme = ''vless'', netloc = ''ABC-123@example.com:443'',
          query = ''sni=example.com'', fragment = []\<rparr>"
  by code_simp

lemma example_flow_run:
  "main plain_lib \<lparr>vless_link = ''vless://ABC-123@example.com:443?flow=xtls-rprx-vision'',
                   http_proxy = None, socks5_proxy = None\<rparr>
   = Inr (config_document absent absent (PStr ''example.com'') (PInt 443) (PStr ''ABC-123'')
            (PStr ''xtls-rprx-vision'') absent absent absent absent absent absent)"
  by code_simp

lemma example_flow_parse:
  "urlparse plain_lib ''vless://ABC-123@example.com:443?flow=xtls-rprx-vision''
   = Inr \<lparr>scheme = ''vless'', netloc = ''ABC-123@example.com:443'',
          query = ''flow=xtls-rprx-vision'', fragment = []\<rparr>"
  by code_simp

lemma example_port_run:
  "main plain_lib \<lparr>vless_link = ''vless://ABC-123@example.com:443?sni=example.com'',
                   http_proxy = Some 9999, socks5_proxy = None\<rparr>
   = Inr (config_document absent (PStr ''9999'') (PStr ''example.com'') (PInt 443)
            (PStr ''ABC-123'') absent absent absent absent (PStr ''example.com'') absent absent)"
proof -
  let ?a = "\<lparr>vless_link = ''vless://ABC-123@example.com:443?sni=example.com'',
            http_proxy = Some 9999, socks5_proxy = None\<rparr>"
  let ?p = "\<lparr>scheme = ''vless'', netloc = ''ABC-123@example.com:443'',
            query = ''sni=example.com'', fragment = []\<rparr>"
  have 1: "port_in_range (http_proxy ?a)" "port_in_range (socks5_proxy ?a)"
    by (simp_all add: port_in_range_def)
  have 2: "startswith (lower (vless_link ?a)) ''vless://''" by code_simp
  have 3: "urlparse plain_lib (vless_link ?a) = Inr ?p" using example_plain_parse by simp
  have 4: "username ?p = Some ''ABC-123''" by code_simp
  have 5: "hostname ?p = Some ''example.com''" by code_simp
  have 6: "port ?p = Inr (Some 443)" by code_simp
  have leaves: "option_leaf (options plain_lib (query ?p)) ''flow'' = absent"
    "option_leaf (options plain_lib (query ?p)) ''type'' = absent"
    "option_leaf (options plain_lib (query ?p)) ''security'' = absent"
    "option_leaf (options plain_lib (query ?p)) ''fp'' = absent"
    "option_leaf (options plain_lib (query ?p)) ''sni'' = PStr ''example.com''"
    "option_leaf (options plain_lib (query ?p)) ''pbk'' = absent"
    "option_leaf (options plain_lib (query ?p)) ''sid'' = absent"
    by code_simp+
  have ports: "port_leaf (http_proxy ?a) = PStr ''9999''" "port_leaf (socks5_proxy ?a) = absent"
    by (simp_all add: port_leaf_def format_9999)
  from main_eq[OF 1 2 3 4 _ 5 _ 6] show ?thesis
    unfolding leaves ports by simp
qed

text \<open>
  Claim C2, at two links: one whose query names none of flow, type and security, and one
  that gives \<^verbatim>\<open>flow=xtls-rprx-vision\<close>.
\<close>

theorem C2_option_defaults_witness:
  "document_at [Key ''outbounds'', Index 0, Key ''settings'', Key ''vnext'', Index 0,
                Key ''users'', Index 0, Key ''flow'']
     (main plain_lib \<lparr>vless_link = ''vless://ABC-123@example.com:443?sni=example.com'',
                      http_proxy = None, socks5_proxy = None\<rparr>)
     = Some (PStr ''xtls-rprx-vision-udp443'')
   \<and> document_at [Key ''outbounds'', Index 0, Key ''streamSettings'', Key ''network'']
     (main plain_lib \<lparr>vless_link = ''vless://ABC-123@example.com:443?sni=example.com'',
                      http_proxy = None, socks5_proxy = None\<rparr>)
     = Some (PStr ''tcp'')
   \<and> document_at [Key ''outbounds'', Index 0, Key ''streamSettings'', Key ''security'']
     (main plain_lib \<lparr>vless_link = ''vless://ABC-123@example.com:443?sni=example.com'',
                      http_proxy = None, socks5_proxy = None\<rparr>)
     = Some (PStr ''reality'')
   \<and> document_at [Key ''outbounds'', Index 0, Key ''settings'', Key ''vnext'', Index 0,
                Key ''users'', Index 0, Key ''flow'']
     (main plain_lib \<lparr>vless_link = ''vless://ABC-123@example.com:443?flow=xtls-rprx-vision'',
                      http_proxy = None, socks5_proxy = None\<rparr>)
     = Some (PStr ''xtls-rprx-vision'')"
proof -
  have pairs1: "parse_qsl plain_lib ''sni=example.com'' = [(''sni'', ''example.com'')]"
    by code_simp
  have pairs2: "parse_qsl plain_lib ''flow=xtls-rprx-vision'' = [(''flow'', ''xtls-rprx-vision'')]"
    by code_simp
  have args1: "vless_link \<lparr>vless_link = ''vless://ABC-123@example.com:443?sni=example.com'',
                   http_proxy = None, socks5_proxy = None\<rparr>
               = ''vless://ABC-123@example.com:443?sni=example.com''"
    by simp
  have args2: "vless_link \<lparr>vless_link = ''vless://ABC-123@example.com:443?flow=xtls-rprx-vision'',
                   http_proxy = None, socks5_proxy = None\<rparr>
               = ''vless://ABC-123@example.com:443?flow=xtls-rprx-vision''"
    by simp
  note c1 = C2_option_defaults[OF example_plain_run, unfolded args1, OF example_plain_parse]
  note c2 = C2_option_defaults[OF example_flow_run, unfolded args2, OF example_flow_parse]
  from c1 have first: "walk [Key ''outbounds'', Index 0, Key ''settings'', Key ''vnext'', Index 0,
                  Key ''users'', Index 0, Key ''flow'']
       (config_document absent absent (PStr ''example.com'') (PInt 443) (PStr ''ABC-123'')
            absent absent absent absent (PStr ''example.com'') absent absent)
       = Some (PStr ''xtls-rprx-vision-udp443'')"
    and second: "walk [Key ''outbounds'', Index 0, Key ''streamSettings'', Key ''network'']
       (config_document absent absent (PStr ''example.com'') (PInt 443) (PStr ''ABC-123'')
            absent absent absent absent (PStr ''example.com'') absent absent)
       = Some (PStr ''tcp'')"
    and third: "walk [Key ''outbounds'', Index 0, Key ''streamSettings'', Key ''security'']
       (config_document absent absent (PStr ''example.com'') (PInt 443) (PStr ''ABC-123'')
            absent absent absent absent (PStr ''example.com'') absent absent)
       = Some (PStr ''reality'')"
    by (simp_all add: pairs1)
  from c2[THEN conjunct2, THEN conjunct2, THEN conjunct2, rule_format,
          of "[]" "''xtls-rprx-vision''" "[]"]
  have fourth: "walk [Key ''outbounds'', Index 0, Key ''settings'', Key ''vnext'', Index 0,
                  Key ''users'', Index 0, Key ''flow'']
       (config_document absent absent (PStr ''example.com'') (PInt 443) (PStr ''ABC-123'')
            (PStr ''xtls-rprx-vision'') absent absent absent absent absent absent)
       = Some (PStr ''xtls-rprx-vision'')"
    by (simp add: pairs2)
  from first second third fourth show ?thesis
    by (simp add: document_at_def example_plain_run example_flow_run)
qed

text \<open>
  Claim C3, as the code has it. With neither port given, the socks inbound port is the
  number 8107 and the http inbound port the number 8108. With \<^verbatim>\<open>--http-proxy 9999\<close>
  and no socks port, the http inbound port is the text \<^verbatim>\<open>"9999"\<close>, as
  \<^verbatim>\<open>build_proxies\<close> formats every port it is given, and the socks inbound port is the
  number 8107.
\<close>

theorem C3_listener_ports:
  assumes "main L argv = Inr doc"
  shows "(http_proxy argv = None \<and> socks5_proxy argv = None \<longrightarrow>
            walk [Key ''inbounds'', Index 0, Key ''port''] doc = Some (PInt 8107)
          \<and> walk [Key ''inbounds'', Index 1, Key ''port''] doc = Some (PInt 8108))
    \<and> (http_proxy argv = Some 9999 \<and> socks5_proxy argv = None \<longrightarrow>
            walk [Key ''inbounds'', Index 1, Key ''port''] doc = Some (PStr ''9999'')
          \<and> walk [Key ''inbounds'', Index 0, Key ''port''] doc = Some (PInt 8107))
    \<and> (\<forall>n. http_proxy argv = Some n \<longrightarrow>
            walk [Key ''inbounds'', Index 1, Key ''port''] doc = Some (PStr (format_int n)))
    \<and> (\<forall>n. socks5_proxy argv = Some n \<longrightarrow>
            walk [Key ''inbounds'', Index 0, Key ''port''] doc = Some (PStr (format_int n)))"
proof -
  from main_Inr[OF assms] obtain c d e f g h i j k l where
    doc: "doc = config_document (port_leaf (socks5_proxy argv)) (port_leaf (http_proxy argv))
                  c d e f g h i j k l"
    by blast
  show ?thesis
    unfolding doc config_leaves py_or_port_leaf by (simp add: format_9999)
qed

theorem C3_listener_ports_witness:
  "document_at [Key ''inbounds'', Index 0, Key ''port'']
     (main plain_lib \<lparr>vless_link = ''vless://ABC-123@example.com:443?sni=example.com'',
                      http_proxy = None, socks5_proxy = None\<rparr>) = Some (PInt 8107)
   \<and> document_at [Key ''inbounds'', Index 1, Key ''port'']
     (main plain_lib \<lparr>vless_link = ''vless://ABC-123@example.com:443?sni=example.com'',
                      http_proxy = None, socks5_proxy = None\<rparr>) = Some (PInt 8108)
   \<and> document_at [Key ''inbounds'', Index 1, Key ''port'']
     (main plain_lib \<lparr>vless_link = ''vless://ABC-123@example.com:443?sni=example.com'',
                      http_proxy = Some 9999, socks5_proxy = None\<rparr>) = Some (PStr ''9999'')
   \<and> document_at [Key ''inbounds'', Index 0, Key ''port'']
     (main plain_lib \<lparr>vless_link = ''vless://ABC-123@example.com:443?sni=example.com'',
                      http_proxy = Some 9999, socks5_proxy = None\<rparr>) = Some (PInt 8107)"
  using C3_listener_ports[OF example_plain_run] C3_listener_ports[OF example_port_run]
  by (simp add: document_at_def example_plain_run example_port_run)

text \<open>
  Claim C3 as stated fails: with \<^verbatim>\<open>--http-proxy 9999\<close> the http inbound port of the
  document is the text \<^verbatim>\<open>"9999"\<close>, which is not the number 9999.
\<close>

theorem C3_port_is_text_counterexample:
  "document_at [Key ''inbounds'', Index 1, Key ''port'']
     (main plain_lib \<lparr>vless_link = ''vless://ABC-123@example.com:443?sni=example.com'',
                      http_proxy = Some 9999, socks5_proxy = None\<rparr>) = Some (PStr ''9999'')
   \<and> document_at [Key ''inbounds'', Index 1, Key ''port'']
     (main plain_lib \<lparr>vless_link = ''vless://ABC-123@example.com:443?sni=example.com'',
                      http_proxy = Some 9999, socks5_proxy = None\<rparr>) \<noteq> Some (PInt 9999)"
  unfolding document_at_def example_port_run sum.case config_leaves
  by (simp add: py_or_def)

text \<open>
  Claim C9 as stated fails. The link of the specification's example gives no option fp.
  The fingerprint of the document written is then the absent marker, whose flag
  \<^verbatim>\<open>__is_missing\<close> is set and which is false as a truth value: the field is left
  undefined, no literal default takes its place, and the document is not fully defined.
\<close>

theorem C9_fingerprint_undefined_counterexample:
  "document_at [Key ''outbounds'', Index 0, Key ''streamSettings'', Key ''realitySettings'',
                Key ''fingerprint''] (main plain_lib example_args)
     = Some (DotAccessibleDict True [])
   \<and> \<not> truthy (DotAccessibleDict True [])
   \<and> \<not> fully_defined (DotAccessibleDict True [])
   \<and> map_sum id fully_defined (main plain_lib example_args) = Inr False"
  by code_simp

text \<open>
  Claim C9, as the code has it. The document that \<^verbatim>\<open>main\<close> writes holds
  \<^verbatim>\<open>None\<close> nowhere. Flow, network and security are the option of the link (flow,
  type, security) when it is present and not empty, and their literal default otherwise.
  Fingerprint, server name, public key and short id are the options fp, sni, pbk and sid
  unchanged when present and not empty; otherwise they are the absent marker, an empty
  mapping, and no default takes their place.
\<close>

theorem C9_defaults_and_passthrough:
  assumes "main L argv = Inr doc" and "urlparse L (vless_link argv) = Inr p"
  shows "none_free doc
    \<and> walk [Key ''outbounds'', Index 0, Key ''settings'', Key ''vnext'', Index 0,
             Key ''users'', Index 0, Key ''flow''] doc
        = Some (case map_of (options L (query p)) ''flow'' of
                  Some v \<Rightarrow> if v = [] then PStr ''xtls-rprx-vision-udp443'' else PStr v
                | None \<Rightarrow> PStr ''xtls-rprx-vision-udp443'')
    \<and> walk [Key ''outbounds'', Index 0, Key ''streamSettings'', Key ''network''] doc
        = Some (case map_of (options L (query p)) ''type'' of
                  Some v \<Rightarrow> if v = [] then PStr ''tcp'' else PStr v
                | None \<Rightarrow> PStr ''tcp'')
    \<and> walk [Key ''outbounds'', Index 0, Key ''streamSettings'', Key ''security''] doc
        = Some (case map_of (options L (query p)) ''security'' of
                  Some v \<Rightarrow> if v = [] then PStr ''reality'' else PStr v
                | None \<Rightarrow> PStr ''reality'')
    \<and> walk [Key ''outbounds'', Index 0, Key ''streamSettings'', Key ''realitySettings'',
             Key ''fingerprint''] doc
        = Some (case map_of (options L (query p)) ''fp'' of
                  Some v \<Rightarrow> if v = [] then absent else PStr v | None \<Rightarrow> absent)
    \<and> walk [Key ''outbounds'', Index 0, Key ''streamSettings'', Key ''realitySettings'',
             Key ''serverName''] doc
        = Some (case map_of (options L (query p)) ''sni'' of
                  Some v \<Rightarrow> if v = [] then absent else PStr v | None \<Rightarrow> absent)
    \<and> walk [Key ''outbounds'', Index 0, Key ''streamSettings'', Key ''realitySettings'',
             Key ''publicKey''] doc
        = Some (case map_of (options L (query p)) ''pbk'' of
                  Some v \<Rightarrow> if v = [] then absent else PStr v | None \<Rightarrow> absent)
    \<and> walk [Key ''outbounds'', Index 0, Key ''streamSettings'', Key ''realitySettings'',
             Key ''shortId''] doc
        = Some (case map_of (options L (query p)) ''sid'' of
                  Some v \<Rightarrow> if v = [] then absent else PStr v | None \<Rightarrow> absent)"
proof -
  from main_doc_options[OF assms] obtain c d e where
    doc: "doc = config_document (port_leaf (socks5_proxy argv)) (port_leaf (http_proxy argv))
               c d e
               (option_leaf (options L (query p)) ''flow'')
               (option_leaf (options L (query p)) ''type'')
               (option_leaf (options L (query p)) ''security'')
               (option_leaf (options L (query p)) ''fp'')
               (option_leaf (options L (query p)) ''sni'')
               (option_leaf (options L (query p)) ''pbk'')
               (option_leaf (options L (query p)) ''sid'')"
    and nf: "none_free c" "none_free d" "none_free e"
    by blast
  have "none_free doc"
    unfolding doc none_free_config
    by (simp add: nf none_free_py_or none_free_option_leaf none_free_port_leaf)
  moreover have "option_leaf ps k
      = (case map_of ps k of Some v \<Rightarrow> if v = [] then absent else PStr v | None \<Rightarrow> absent)"
    for ps k
    by (simp add: option_leaf_def)
  ultimately show ?thesis
    unfolding doc config_leaves py_or_option_leaf by simp
qed

theorem C9_defaults_and_passthrough_witness:
  "none_free (config_document absent absent (PStr ''example.com'') (PInt 443) (PStr ''ABC-123'')
              absent absent (PStr ''reality'') absent (PStr ''example.com'') (PStr ''KEY'')
              (PStr ''01''))
   \<and> document_at [Key ''outbounds'', Index 0, Key ''streamSettings'', Key ''realitySettings'',
                  Key ''serverName''] (main plain_lib example_args) = Some (PStr ''example.com'')
   \<and> document_at [Key ''outbounds'', Index 0, Key ''streamSettings'', Key ''realitySettings'',
                  Key ''fingerprint''] (main plain_lib example_args) = Some absent
   \<and> document_at [Key ''outbounds'', Index 0, Key ''streamSettings'', Key ''network'']
        (main plain_lib example_args) = Some (PStr ''tcp'')"
proof -
  have run: "main plain_lib example_args
     = Inr (config_document absent absent (PStr ''example.com'') (PInt 443) (PStr ''ABC-123'')
              absent absent (PStr ''reality'') absent (PStr ''example.com'') (PStr ''KEY'')
              (PStr ''01''))"
    by code_simp
  have parsed: "urlparse plain_lib (vless_link example_args)
     = Inr \<lparr>scheme = ''vless'', netloc = ''ABC-123@example.com:443'',
            query = ''security=reality&sni=example.com&pbk=KEY&sid=01'',
            fragment = ''MyNode''\<rparr>"
    by code_simp
  have opts: "options plain_lib ''security=reality&sni=example.com&pbk=KEY&sid=01''
     = [(''security'', ''reality''), (''sni'', ''example.com''), (''pbk'', ''KEY''),
        (''sid'', ''01'')]"
    by code_simp
  from C9_defaults_and_passthrough[OF run parsed] show ?thesis
    by (simp add: document_at_def run opts)
qed


text \<open>
  The entries log, stats, policy, api and routing of the document are the same literals
  whatever \<^verbatim>\<open>build_config\<close> is given.
\<close>

lemma build_config_literals:
  assumes "build_config raw = Some doc"
  shows "walk [Key ''log''] doc
          = Some (PDict [(''access'', PStr ''none''), (''error'', PStr ''''),
                  (''loglevel'', PStr ''warning''), (''dnsLog'', PBool False)])
      \<and> walk [Key ''stats''] doc = Some (PDict [])
      \<and> walk [Key ''policy''] doc
          = Some (PDict [(''levels'', PDict [(''0'', PDict [(''statsUserUplink'', PBool
                  True), (''statsUserDownlink'', PBool True)])]), (''system'', PDict
                  [(''statsOutboundUplink'', PBool True), (''statsOutboundDownlink'',
                  PBool True)])])
      \<and> walk [Key ''api''] doc
          = Some (PDict [(''tag'', PStr ''api''), (''services'', PList [PStr
                  ''StatsService''])])
      \<and> walk [Key ''routing''] doc
          = Some (PDict [(''domainStrategy'', PStr ''AsIs''), (''rules'', PList [PDict
                  [(''type'', PStr ''field''), (''inboundTag'', PList [PStr ''api'']),
                  (''outboundTag'', PStr ''api'')], PDict [(''type'', PStr ''field''),
                  (''ip'', PList [PStr ''geoip:private'']), (''outboundTag'', PStr
                  ''block'')], PDict [(''type'', PStr ''field''), (''protocol'', PList
                  [PStr ''bittorrent'']), (''outboundTag'', PStr ''direct'')], PDict
                  [(''type'', PStr ''field''), (''port'', PStr ''6969,6881-6889''),
                  (''outboundTag'', PStr ''direct'')], PDict [(''type'', PStr ''field''),
                  (''sourcePort'', PStr ''6881-6889''), (''outboundTag'', PStr
                  ''direct'')], PDict [(''type'', PStr ''field''), (''domain'', PList
                  [PStr ''ext:customgeo.dat:coherence-extra-exceptions'']),
                  (''outboundTag'', PStr ''proxy'')], PDict [(''type'', PStr ''field''),
                  (''domain'', PList [PStr ''geosite:cn'', PStr ''domain:cn'', PStr
                  ''domain:xn--fiqs8s'', PStr ''domain:xn--fiqz9s'', PStr
                  ''domain:xn--55qx5d'', PStr ''domain:xn--io0a7i'', PStr ''domain:ru'',
                  PStr ''domain:xn--p1ai'', PStr ''domain:by'', PStr ''domain:xn--90ais'',
                  PStr ''domain:ir'', PStr ''ext:customgeo.dat:coherence-extra'', PStr
                  ''ext:customgeo.dat:coherence-extra-plus'']), (''outboundTag'', PStr
                  ''direct'')], PDict [(''type'', PStr ''field''), (''ip'', PList [PStr
                  ''geoip:cn'', PStr ''geoip:ru'', PStr ''geoip:by'', PStr ''geoip:ir'']),
                  (''outboundTag'', PStr ''direct'')]])])"
proof -
  from build_config_Some[OF assms] obtain a b c d e f g h i j k l where
    "doc = config_document a b c d e f g h i j k l"
    by blast
  then show ?thesis by (simp add: config_document_def)
qed









text \<open>
  Claim C4 fails on the code where the port of the link is not a number. The library's
  \<^verbatim>\<open>parsed.port\<close> raises \<^verbatim>\<open>ValueError\<close> for a port that is not made of digits
  or lies above 65535, and \<^verbatim>\<open>parse_vless_link\<close> reads it before its own check, so
  the run ends with that exception and not with
  \<^verbatim>\<open>Proxy host or port not defined\<close>. A missing port, a port 0 and an empty host do
  reach the check.
\<close>

theorem C4_unparseable_port_raises:
  "parse_vless_link plain_lib ''vless://user@host:abc/'' = Inl ValueError
   \<and> parse_vless_link plain_lib ''vless://user@host:70000/'' = Inl ValueError
   \<and> main plain_lib \<lparr>vless_link = ''vless://user@host:abc/'', http_proxy = None,
                      socks5_proxy = None\<rparr> = Inl ValueError
   \<and> parse_vless_link plain_lib ''vless://user@host/''
       = Inl (SystemExit ''Proxy host or port not defined'')
   \<and> parse_vless_link plain_lib ''vless://user@host:0/''
       = Inl (SystemExit ''Proxy host or port not defined'')
   \<and> parse_vless_link plain_lib ''vless://user@:443/''
       = Inl (SystemExit ''Proxy host or port not defined'')"
  by code_simp

lemma chain_absent:
  assumes "\<forall>name \<in> set names. name \<notin> set class_attributes"
  shows "chain absent names = Some absent"
  using assms by (induction names) (simp_all add: attr_absent)

lemma getattr_hook_eq:
  "getattr_hook missing kvs (Some name) =
     (if missing then absent
      else (case map_of kvs name of
              Some v \<Rightarrow> if truthy v then v else absent
            | None \<Rightarrow> absent))"
  by (simp add: getattr_hook_def py_or_def split: option.splits)

text \<open>
  Claim C7 as stated fails for a field whose name is an attribute of the class itself.
  \<^verbatim>\<open>get_path\<close> is a method of \<^verbatim>\<open>DotAccessibleDict\<close>, so on the wrapped mapping
  \<^verbatim>\<open>{"get_path": "x"}\<close> the expression \<^verbatim>\<open>d.get_path\<close> is that method and
  \<^verbatim>\<open>__getattr__\<close> is not called, although the field is present with a truthy value;
  the same holds on the absent marker, and for the names that \<^verbatim>\<open>dict\<close> defines, such
  as \<^verbatim>\<open>items\<close>.
\<close>

theorem C7_class_attribute_counterexample:
  "map_of (init_items [(''get_path'', PStr ''x'')]) ''get_path'' = Some (PStr ''x'')
   \<and> truthy (PStr ''x'')
   \<and> attribute False (init_items [(''get_path'', PStr ''x'')]) ''get_path'' = Builtin ''get_path''
   \<and> attribute False (init_items [(''get_path'', PStr ''x'')]) ''get_path'' \<noteq> Field (PStr ''x'')
   \<and> attribute True [] ''get_path'' = Builtin ''get_path''
   \<and> attribute True [] ''get_path'' \<noteq> Field absent
   \<and> attribute False (init_items [(''items'', PStr ''x'')]) ''items'' = Builtin ''items''"
  by code_simp

text \<open>
  Claim C7, as the code has it. For every field name that is not an attribute of the
  class itself (\<open>class_attributes\<close>: its methods, its flag, and what \<^verbatim>\<open>dict\<close> and
  \<^verbatim>\<open>object\<close> define), attribute access on a \<^verbatim>\<open>DotAccessibleDict\<close> returns the
  value stored under the name when it is there and truthy, and the absent marker
  otherwise, in particular always on the absent marker. In a mapping wrapped from
  \<open>raw\<close> the value stored is the value of \<open>raw\<close>, a mapping wrapped in turn (and then
  truthy even when empty). The absent marker is falsy; a field holding the empty string,
  zero or false gives the absent marker as a missing field does; and a chain of such
  names through the absent marker yields the absent marker at every depth and never
  raises.
\<close>

theorem C7_attribute_access:
  assumes "name \<notin> set class_attributes"
  shows "attribute missing kvs name
           = Field (if missing then absent
                    else (case map_of kvs name of
                            Some v \<Rightarrow> if truthy v then v else absent
                          | None \<Rightarrow> absent))
    \<and> attribute False (init_items raw) name
           = Field (case map_of raw name of
                      Some v \<Rightarrow> if truthy (init_value v) then init_value v else absent
                    | None \<Rightarrow> absent)
    \<and> (\<forall>kvs'. map_of raw name = Some (PDict kvs') \<longrightarrow>
           attribute False (init_items raw) name = Field (DotAccessibleDict_new False kvs'))
    \<and> \<not> truthy absent
    \<and> (\<forall>v \<in> set [PStr [], PInt 0, PBool False]. map_of raw name = Some v \<longrightarrow>
           attribute False (init_items raw) name = Field absent)
    \<and> (map_of raw name = None \<longrightarrow> attribute False (init_items raw) name = Field absent)
    \<and> attribute True kvs name = Field absent
    \<and> (\<forall>names. (\<forall>n \<in> set names. n \<notin> set class_attributes) \<longrightarrow>
           chain absent (name # names) = Some absent)
    \<and> (\<forall>names. (\<forall>n \<in> set names. n \<notin> set class_attributes) \<longrightarrow>
           map_of raw name = None \<longrightarrow>
           chain (DotAccessibleDict_new False raw) (name # names) = Some absent)"
proof -
  have general: "attribute m items name
           = Field (if m then absent
                    else (case map_of items name of
                            Some v \<Rightarrow> if truthy v then v else absent
                          | None \<Rightarrow> absent))" for m items
    using assms by (simp add: attribute_def getattr_hook_eq)
  have wrapped: "attribute False (init_items raw) name
           = Field (case map_of raw name of
                      Some v \<Rightarrow> if truthy (init_value v) then init_value v else absent
                    | None \<Rightarrow> absent)"
    by (simp add: general map_of_init_items split: option.splits)
  have mapping: "attribute False (init_items raw) name = Field (DotAccessibleDict_new False kvs')"
    if "map_of raw name = Some (PDict kvs')" for kvs'
    using that by (simp add: wrapped DotAccessibleDict_new_def)
  have falsy: "attribute False (init_items raw) name = Field absent"
    if "v \<in> set [PStr [], PInt 0, PBool False]" "map_of raw name = Some v" for v
    using that by (auto simp: wrapped)
  have missing_field: "attribute False (init_items raw) name = Field absent"
    if "map_of raw name = None"
    using that by (simp add: wrapped)
  have marker: "attribute True kvs name = Field absent"
    by (simp add: general)
  have through: "chain absent (name # names) = Some absent"
    if "\<forall>n \<in> set names. n \<notin> set class_attributes" for names
    using chain_absent[of "name # names"] that assms by simp
  have from_missing: "chain (DotAccessibleDict_new False raw) (name # names) = Some absent"
    if "\<forall>n \<in> set names. n \<notin> set class_attributes" "map_of raw name = None" for names
    using that assms chain_absent[OF that(1)]
    by (simp add: attr_new del: attr.simps)
  from general wrapped mapping falsy_absent falsy missing_field marker through from_missing
  show ?thesis by blast
qed

theorem C7_attribute_access_witness:
  "attribute False (init_items [(''security'', PStr ''reality''), (''flow'', PStr [])]) ''security''
     = Field (PStr ''reality'')
   \<and> attribute False (init_items [(''security'', PStr ''reality''), (''flow'', PStr [])]) ''flow''
     = Field absent
   \<and> attribute False (init_items [(''security'', PStr ''reality''), (''flow'', PStr [])]) ''sub''
     = Field absent
   \<and> attribute False (init_items [(''server'', PDict [(''host'', PStr ''h'')])]) ''server''
     = Field (DotAccessibleDict False [(''host'', PStr ''h'')])
   \<and> chain (DotAccessibleDict_new False [(''flow'', PStr [])]) [''security'', ''sub'', ''sub2'']
     = Some absent
   \<and> \<not> truthy absent"
proof -
  have n: "''security'' \<notin> set class_attributes" "''flow'' \<notin> set class_attributes"
    "''sub'' \<notin> set class_attributes" "''server'' \<notin> set class_attributes"
    "\<forall>n \<in> set [''sub'', ''sub2'']. n \<notin> set class_attributes"
    by (simp_all add: class_attributes_def)
  let ?raw = "[(''security'', PStr ''reality''), (''flow'', PStr [])]"
  note sec = C7_attribute_access[OF n(1), of False "[]" ?raw]
  note flow = C7_attribute_access[OF n(2), of False "[]" ?raw]
  note sub = C7_attribute_access[OF n(3), of False "[]" ?raw]
  note srv = C7_attribute_access[OF n(4), of False "[]" "[(''server'', PDict [(''host'', PStr ''h'')])]"]
  note chn = C7_attribute_access[OF n(1), of False "[]" "[(''flow'', PStr [])]"]
  from sec have 1: "attribute False (init_items ?raw) ''security'' = Field (PStr ''reality'')"
    by simp
  from flow have 2: "attribute False (init_items ?raw) ''flow'' = Field absent"
    by simp
  from sub have 3: "attribute False (init_items ?raw) ''sub'' = Field absent"
    by simp
  from srv have 4: "attribute False (init_items [(''server'', PDict [(''host'', PStr ''h'')])]) ''server''
     = Field (DotAccessibleDict False [(''host'', PStr ''h'')])"
    by (simp add: DotAccessibleDict_new_def)
  from chn n(5) have 5: "chain (DotAccessibleDict_new False [(''flow'', PStr [])])
      [''security'', ''sub'', ''sub2''] = Some absent"
    by simp
  from sec have 6: "\<not> truthy absent" by blast
  from 1 2 3 4 5 6 show ?thesis by blast
qed

end
